theory Spec2Isabelle
  imports Complex_Main "HOL-Library.Sublist"
begin

section \<open>NPO Radio 2 Top 2000: the now-playing pipeline\<close>

text \<open>
  A shallow embedding of the matcher (\<^verbatim>\<open>database.py\<close>), the metadata client
  (\<^verbatim>\<open>npo_client.py\<close>) and the polling coordinator (\<^verbatim>\<open>coordinator.py\<close>).
  Python strings are \<open>string\<close>, Python ints are \<open>int\<close>, \<^verbatim>\<open>None\<close> is \<open>None\<close>.
  A \<^verbatim>\<open>datetime\<close> is the number of microseconds since the epoch.
\<close>

subsection \<open>Strings\<close>

text \<open>
  \<^verbatim>\<open>str.lower()\<close>, on the ASCII letters (a \<open>char\<close> is a byte; Python lowers every
  cased code point): a capital letter, code 65 to 90, gets bit 5 set, which adds 32.
\<close>

definition lower_char :: "char \<Rightarrow> char" where
  "lower_char c =
     (if (65::nat) \<le> of_char c \<and> of_char c \<le> (90::nat)
      then (case c of Char b0 b1 b2 b3 b4 b5 b6 b7 \<Rightarrow> Char b0 b1 b2 b3 b4 True b6 b7)
      else c)"

definition lower :: "string \<Rightarrow> string" where
  "lower s = map lower_char s"

text \<open>\<^verbatim>\<open>pattern in text\<close>: the pattern occurs as a contiguous run of the text.\<close>

fun str_contains :: "string \<Rightarrow> string \<Rightarrow> bool" where
  "str_contains p [] = (p = [])"
| "str_contains p (c # s) = (prefix p (c # s) \<or> str_contains p s)"

text \<open>Truthiness of an optional string: \<^verbatim>\<open>None\<close> and \<^verbatim>\<open>""\<close> are falsy.\<close>

fun truthy_str :: "string option \<Rightarrow> bool" where
  "truthy_str None = False"
| "truthy_str (Some s) = (s \<noteq> [])"

subsection \<open>Observations\<close>

text \<open>
  The observation dictionary. The second and third source return no \<^verbatim>\<open>cover_art_url\<close>
  key; the coordinator reads it with \<^verbatim>\<open>.get\<close>, so a missing key is \<open>None\<close>.
\<close>

record metadata =
  md_artist :: string
  md_title :: string
  md_cover_art_url :: "string option"

subsection \<open>The store (\<^verbatim>\<open>SCHEMA_SQL\<close>)\<close>

type_synonym datetime = int

text \<open>
  A row of \<^verbatim>\<open>songs\<close>. The store keeps \<^verbatim>\<open>cover_art_cached_at\<close> as ISO text
  (\<^verbatim>\<open>is_cover_art_cached\<close> parses it with \<^verbatim>\<open>datetime.fromisoformat\<close>); the field holds
  the instant that text denotes.
\<close>

record song =
  song_id :: int
  position :: int
  artist :: string
  title :: string
  year :: "int option"
  musicbrainz_id :: "string option"
  cover_art_url :: "string option"
  cover_art_cached_at :: "datetime option"

record fun_fact =
  ff_song_id :: int
  fact_text :: string
  fact_order :: int

record history_row =
  ph_song_id :: int
  ph_year :: int
  ph_position :: int

record playlist_state_row =
  current_position :: int
  current_song_id :: int
  detected_at :: datetime
  npo_metadata_json :: metadata

record notification_rule =
  rule_id :: int
  rule_type :: string
  match_pattern :: string
  enabled :: bool

text \<open>
  The singleton row of \<^verbatim>\<open>notification_settings\<close>, its two JSON columns already
  decoded (\<open>None\<close> for a NULL or empty column).
\<close>

record settings_row =
  row_notification_targets :: "string list option"
  row_notify_current_song :: bool
  row_notify_upcoming_song :: bool
  row_upcoming_notify_positions :: "int list option"

text \<open>Every table is the list of its rows in the order a plain \<^verbatim>\<open>SELECT\<close> enumerates them.\<close>

record database =
  songs :: "song list"
  fun_facts :: "fun_fact list"
  position_history :: "history_row list"
  playlist_state :: "playlist_state_row option"
  notification_rules :: "notification_rule list"
  notification_settings :: "settings_row option"

text \<open>\<^verbatim>\<open>LIMIT ?\<close>: SQLite puts no upper bound on the rows when the limit is negative.\<close>

definition sql_limit :: "int \<Rightarrow> 'a list \<Rightarrow> 'a list" where
  "sql_limit n rows = (if n < 0 then rows else take (nat n) rows)"

subsection \<open>Song dictionaries\<close>

text \<open>
  The \<^verbatim>\<open>dict\<close> the store's read operations return for a song. A key that a particular
  operation leaves out reads as \<open>None\<close> or \<open>[]\<close>, which is what the callers'
  \<^verbatim>\<open>.get\<close> gives them.
\<close>

record song_data =
  sd_id :: int
  sd_position :: int
  sd_artist :: string
  sd_title :: string
  sd_year :: "int option"
  sd_cover_art_url :: "string option"
  sd_cover_art_cached_at :: "datetime option"
  sd_fun_facts :: "string list"
  sd_position_history :: "(int \<times> int) list"

text \<open>
  \<^verbatim>\<open>get_position_history\<close>: \<^verbatim>\<open>WHERE song_id = ? AND year < 2025 ORDER BY year DESC LIMIT ?\<close>,
  as (year, position) pairs.
\<close>

definition get_position_history :: "database \<Rightarrow> int \<Rightarrow> int \<Rightarrow> (int \<times> int) list" where
  "get_position_history db sid limit =
     map (\<lambda>h. (ph_year h, ph_position h))
       (sql_limit limit
         (sort_key (\<lambda>h. - ph_year h)
           (filter (\<lambda>h. ph_song_id h = sid \<and> ph_year h < 2025) (position_history db))))"

text \<open>\<^verbatim>\<open>SELECT fact_text, fact_order FROM fun_facts WHERE song_id = ? ORDER BY fact_order\<close>\<close>

definition get_fun_facts :: "database \<Rightarrow> int \<Rightarrow> string list" where
  "get_fun_facts db sid =
     map fact_text (sort_key fact_order (filter (\<lambda>f. ff_song_id f = sid) (fun_facts db)))"

text \<open>
  The dictionary \<^verbatim>\<open>match_song\<close> and \<^verbatim>\<open>get_song_by_position\<close> build from a row: the seven
  selected columns, then the fun facts and the position history (default limit 5).
\<close>

definition song_dict :: "database \<Rightarrow> song \<Rightarrow> song_data" where
  "song_dict db row =
     \<lparr> sd_id = song_id row, sd_position = position row, sd_artist = artist row,
       sd_title = title row, sd_year = year row, sd_cover_art_url = cover_art_url row,
       sd_cover_art_cached_at = cover_art_cached_at row,
       sd_fun_facts = get_fun_facts db (song_id row),
       sd_position_history = get_position_history db (song_id row) 5 \<rparr>"

subsection \<open>The matcher (\<^verbatim>\<open>DatabaseManager.match_song\<close>)\<close>

text \<open>
  \<^verbatim>\<open>fuzz.partial_ratio\<close> belongs to the rapidfuzz library, so the similarity score is a
  parameter of the model. Scores are real numbers here; the program computes them in
  floating point.
\<close>

type_synonym scorer = "string \<Rightarrow> string \<Rightarrow> real"

definition FUZZY_MATCH_THRESHOLD :: real where
  "FUZZY_MATCH_THRESHOLD = 85"

definition combined_score :: "scorer \<Rightarrow> string \<Rightarrow> string \<Rightarrow> song \<Rightarrow> real" where
  "combined_score pr a t row =
     (pr (lower a) (lower (artist row)) + pr (lower t) (lower (title row))) / 2"

text \<open>
  The loop over the fetched rows, carrying \<^verbatim>\<open>best_match\<close> and \<^verbatim>\<open>best_score\<close>.
\<close>

fun match_loop ::
  "scorer \<Rightarrow> string \<Rightarrow> string \<Rightarrow> song list \<Rightarrow> song option \<times> real \<Rightarrow> song option \<times> real"
where
  "match_loop pr a t [] best = best"
| "match_loop pr a t (row # rows) (best_match, best_score) =
     (if combined_score pr a t row > best_score
         \<and> combined_score pr a t row \<ge> FUZZY_MATCH_THRESHOLD
      then match_loop pr a t rows (Some row, combined_score pr a t row)
      else match_loop pr a t rows (best_match, best_score))"

definition match_song :: "scorer \<Rightarrow> database \<Rightarrow> string \<Rightarrow> string \<Rightarrow> song_data option" where
  "match_song pr db a t =
     (case fst (match_loop pr a t (songs db) (None, 0)) of
        None \<Rightarrow> None
      | Some row \<Rightarrow> Some (song_dict db row))"

text \<open>The score the loop ends with (the one \<^verbatim>\<open>match_song\<close> logs).\<close>

definition match_score :: "scorer \<Rightarrow> database \<Rightarrow> string \<Rightarrow> string \<Rightarrow> real" where
  "match_score pr db a t = snd (match_loop pr a t (songs db) (None, 0))"

text \<open>
  A scorer to evaluate the matcher with. It is 100 when both strings are empty or when one
  of two non-empty strings occurs inside the other (there \<^verbatim>\<open>partial_ratio\<close> is 100 as
  well), and 0 otherwise.
\<close>

definition containment_ratio :: scorer where
  "containment_ratio x y =
     (if x = [] \<or> y = [] then (if x = y then 100 else 0)
      else if str_contains x y \<or> str_contains y x then 100 else 0)"

subsection \<open>The metadata client (\<^verbatim>\<open>NPOClient\<close>)\<close>

datatype source = NPOWebsite | Icecast | OnlineRadioBox

text \<open>
  What one source does when it is asked: it raises (a network error, a status other than
  200, a timeout), or it returns a dictionary or \<^verbatim>\<open>None\<close>. The HTTP exchange and the
  parsing of the reply are the environment's; the model takes their outcome.
\<close>

datatype stage_outcome = Raises | Returns "metadata option"

record upstream =
  scrape_npo_website :: stage_outcome
  fetch_icecast_metadata :: stage_outcome
  scrape_onlineradiobox :: stage_outcome

record NPOClient =
  last_fetch :: "datetime option"
  cached_metadata :: "metadata option"

text \<open>\<^verbatim>\<open>timedelta(seconds=30)\<close>, in microseconds.\<close>

definition cache_duration :: int where
  "cache_duration = 30 * 1000000"

definition cache_metadata :: "datetime \<Rightarrow> metadata \<Rightarrow> NPOClient \<Rightarrow> NPOClient" where
  "cache_metadata now md cl = cl\<lparr> cached_metadata := Some md, last_fetch := Some now \<rparr>"

text \<open>
  The three \<^verbatim>\<open>try\<close> blocks after a cache miss. The clock is read at the cache test
  and again when a result is cached; both readings are \<open>now\<close> here. The result is the value returned, the
  client afterwards, and the sources that were asked, in order. A source that raises is
  handled like one that returns \<^verbatim>\<open>None\<close>: the \<^verbatim>\<open>except Exception\<close> of its block logs and
  falls through to the next block.
\<close>

definition fetch_chain ::
  "datetime \<Rightarrow> upstream \<Rightarrow> NPOClient \<Rightarrow> metadata option \<times> NPOClient \<times> source list"
where
  "fetch_chain now up cl =
     (case scrape_npo_website up of
        Returns (Some md) \<Rightarrow> (Some md, cache_metadata now md cl, [NPOWebsite])
      | _ \<Rightarrow>
     (case fetch_icecast_metadata up of
        Returns (Some md) \<Rightarrow> (Some md, cache_metadata now md cl, [NPOWebsite, Icecast])
      | _ \<Rightarrow>
     (case scrape_onlineradiobox up of
        Returns (Some md) \<Rightarrow>
          (Some md, cache_metadata now md cl, [NPOWebsite, Icecast, OnlineRadioBox])
      | _ \<Rightarrow> (None, cl, [NPOWebsite, Icecast, OnlineRadioBox]))))"

text \<open>The cache test at the head of \<^verbatim>\<open>get_current_metadata\<close>.\<close>

definition cache_hit :: "datetime \<Rightarrow> NPOClient \<Rightarrow> metadata option" where
  "cache_hit now cl =
     (case cached_metadata cl of
        None \<Rightarrow> None
      | Some md \<Rightarrow>
          (case last_fetch cl of
             None \<Rightarrow> None
           | Some fetched \<Rightarrow> if now - fetched < cache_duration then Some md else None))"

definition get_current_metadata ::
  "datetime \<Rightarrow> upstream \<Rightarrow> NPOClient \<Rightarrow> metadata option \<times> NPOClient \<times> source list"
where
  "get_current_metadata now up cl =
     (case cache_hit now cl of
        Some md \<Rightarrow> (Some md, cl, [])
      | None \<Rightarrow> fetch_chain now up cl)"

text \<open>A source failed when it raised or returned \<^verbatim>\<open>None\<close>.\<close>

fun stage_failed :: "stage_outcome \<Rightarrow> bool" where
  "stage_failed Raises = True"
| "stage_failed (Returns None) = True"
| "stage_failed (Returns (Some md)) = False"

subsection \<open>The coordinator's state, its environment and its effects\<close>

text \<open>
  The calls the coordinator makes on the store, with their arguments.
\<close>

datatype db_op =
    MatchSong string string
  | UpdateCoverArt int string "string option"
  | IsCoverArtCached int
  | UpdatePlaylistState int int metadata
  | GetNotificationSettings
  | GetNotificationRules
  | GetSongByPosition int
  | GetUpcomingSongs int int

text \<open>
  What a tick does to the outside, in the order it does it: a request to an upstream
  source, a call on the store, a search of the cover-art service, and a call of a
  notification service (target, \<^verbatim>\<open>is_current\<close>, the song, and whether the call went
  through).
\<close>

datatype event =
    Upstream source
  | StoreCall db_op
  | MusicBrainzSearch string string
  | ServiceCall string bool song_data bool

text \<open>Exceptions that reach the coordinator.\<close>

datatype exn = StoreError db_op | TypeError

datatype update_failed = UpdateFailed exn

text \<open>The dictionary \<^verbatim>\<open>_async_update_data\<close> returns.\<close>

datatype tick_error = NoMetadataAvailable | NotInTop2000 string string

record tick_data =
  current_song :: "song_data option"
  song_changed :: bool
  error :: "tick_error option"
  raw_metadata :: "metadata option"
  npo_metadata :: "metadata option"

text \<open>
  The coordinator with what it owns: \<^verbatim>\<open>_last_song_id\<close>, \<^verbatim>\<open>data\<close> (the result of the
  last successful refresh; the base class assigns it after \<^verbatim>\<open>_async_update_data\<close> has
  returned), the store behind \<^verbatim>\<open>db_manager\<close>, the metadata client, and the record of
  the effects so far.
\<close>

record coordinator =
  last_song_id :: "int option"
  data :: "tick_data option"
  db_manager :: database
  npo_client :: NPOClient
  trace :: "event list"

text \<open>
  What a tick meets outside: the clock (every reading within one tick has the same
  value), the three sources, which store calls raise, what the MusicBrainz search gives
  as (release id, cover URL) (\<^verbatim>\<open>_search_musicbrainz\<close> catches every exception and then
  returns no URL), and for which targets the service call raises.
\<close>

record environment =
  now :: datetime
  sources :: upstream
  store_raises :: "db_op \<Rightarrow> bool"
  search_musicbrainz :: "string \<Rightarrow> string \<Rightarrow> string option \<times> string option"
  service_raises :: "string \<Rightarrow> bool"

definition emit :: "event list \<Rightarrow> coordinator \<Rightarrow> coordinator" where
  "emit evs c = c\<lparr> trace := trace c @ evs \<rparr>"

text \<open>
  Sequencing: the second computation runs on the state the first one left, unless the
  first one raised.
\<close>

fun and_then ::
  "coordinator \<times> (exn + 'a) \<Rightarrow> ('a \<Rightarrow> coordinator \<Rightarrow> coordinator \<times> (exn + 'b))
    \<Rightarrow> coordinator \<times> (exn + 'b)"
where
  "and_then (c, Inl e) f = (c, Inl e)"
| "and_then (c, Inr v) f = f v c"

text \<open>A call on the store: recorded, and raising when the environment says so.\<close>

definition store_call :: "environment \<Rightarrow> db_op \<Rightarrow> coordinator \<Rightarrow> coordinator \<times> (exn + unit)" where
  "store_call env op c =
     (emit [StoreCall op] c, if store_raises env op then Inl (StoreError op) else Inr ())"

subsection \<open>Store operations the coordinator uses\<close>

text \<open>
  \<^verbatim>\<open>update_cover_art\<close>:
  \<^verbatim>\<open>UPDATE songs SET cover_art_url = ?, cover_art_cached_at = ?, musicbrainz_id = ? WHERE id = ?\<close>
\<close>

definition set_cover_art ::
  "datetime \<Rightarrow> int \<Rightarrow> string \<Rightarrow> string option \<Rightarrow> database \<Rightarrow> database" where
  "set_cover_art t sid url mbid db =
     db\<lparr> songs := map (\<lambda>row. if song_id row = sid
                                then row\<lparr> cover_art_url := Some url, cover_art_cached_at := Some t,
                                          musicbrainz_id := mbid \<rparr>
                                else row) (songs db) \<rparr>"

definition update_cover_art ::
  "environment \<Rightarrow> int \<Rightarrow> string \<Rightarrow> string option \<Rightarrow> coordinator \<Rightarrow> coordinator \<times> (exn + unit)"
where
  "update_cover_art env sid url mbid c =
     and_then (store_call env (UpdateCoverArt sid url mbid) c)
       (\<lambda>_ c'. (c'\<lparr> db_manager := set_cover_art (now env) sid url mbid (db_manager c') \<rparr>,
                 Inr ()))"

text \<open>\<^verbatim>\<open>CACHE_DURATION_HOURS = 24\<close>, in microseconds.\<close>

definition CACHE_DURATION :: int where
  "CACHE_DURATION = 24 * 3600 * 1000000"

text \<open>
  \<^verbatim>\<open>is_cover_art_cached\<close>: the first row with that id; \<^verbatim>\<open>False\<close> without a row, a URL or
  a timestamp, else whether the timestamp is less than 24 hours old.
\<close>

definition cover_art_cached :: "datetime \<Rightarrow> database \<Rightarrow> int \<Rightarrow> bool" where
  "cover_art_cached t db sid =
     (case find (\<lambda>row. song_id row = sid) (songs db) of
        None \<Rightarrow> False
      | Some row \<Rightarrow>
          (if \<not> truthy_str (cover_art_url row) then False
           else (case cover_art_cached_at row of
                   None \<Rightarrow> False
                 | Some cached_at \<Rightarrow> t - cached_at < CACHE_DURATION)))"

definition is_cover_art_cached ::
  "environment \<Rightarrow> int \<Rightarrow> coordinator \<Rightarrow> coordinator \<times> (exn + bool)" where
  "is_cover_art_cached env sid c =
     and_then (store_call env (IsCoverArtCached sid) c)
       (\<lambda>_ c'. (c', Inr (cover_art_cached (now env) (db_manager c') sid)))"

text \<open>
  \<^verbatim>\<open>update_playlist_state\<close>: \<^verbatim>\<open>INSERT OR REPLACE\<close> of the row with id 1. The payload is
  the observation; the program stores its JSON text.
\<close>

definition update_playlist_state ::
  "environment \<Rightarrow> int \<Rightarrow> int \<Rightarrow> metadata \<Rightarrow> coordinator \<Rightarrow> coordinator \<times> (exn + unit)" where
  "update_playlist_state env pos sid md c =
     and_then (store_call env (UpdatePlaylistState pos sid md) c)
       (\<lambda>_ c'. (c'\<lparr> db_manager := (db_manager c')\<lparr> playlist_state :=
                      Some \<lparr> current_position = pos, current_song_id = sid,
                             detected_at = now env, npo_metadata_json = md \<rparr> \<rparr> \<rparr>,
                 Inr ()))"

text \<open>The dictionary \<^verbatim>\<open>get_notification_settings\<close> returns, with its defaults.\<close>

record settings =
  notification_targets :: "string list"
  notify_current_song :: bool
  notify_upcoming_song :: bool
  upcoming_notify_positions :: "int list"

definition read_notification_settings :: "database \<Rightarrow> settings" where
  "read_notification_settings db =
     (case notification_settings db of
        None \<Rightarrow>
          \<lparr> notification_targets = [''persistent_notification''], notify_current_song = True,
            notify_upcoming_song = False, upcoming_notify_positions = [1, 2, 3] \<rparr>
      | Some row \<Rightarrow>
          \<lparr> notification_targets =
              (case row_notification_targets row of
                 None \<Rightarrow> [''persistent_notification''] | Some ts \<Rightarrow> ts),
            notify_current_song = row_notify_current_song row,
            notify_upcoming_song = row_notify_upcoming_song row,
            upcoming_notify_positions =
              (case row_upcoming_notify_positions row of
                 None \<Rightarrow> [1, 2, 3] | Some ps \<Rightarrow> ps) \<rparr>)"

definition get_notification_settings ::
  "environment \<Rightarrow> coordinator \<Rightarrow> coordinator \<times> (exn + settings)" where
  "get_notification_settings env c =
     and_then (store_call env GetNotificationSettings c)
       (\<lambda>_ c'. (c', Inr (read_notification_settings (db_manager c'))))"

text \<open>\<^verbatim>\<open>get_notification_rules(enabled_only=True)\<close>: \<^verbatim>\<open>WHERE enabled = 1\<close>, in stored order.\<close>

definition get_notification_rules ::
  "environment \<Rightarrow> coordinator \<Rightarrow> coordinator \<times> (exn + notification_rule list)" where
  "get_notification_rules env c =
     and_then (store_call env GetNotificationRules c)
       (\<lambda>_ c'. (c', Inr (filter enabled (notification_rules (db_manager c')))))"

text \<open>\<^verbatim>\<open>get_song_by_position\<close>: \<^verbatim>\<open>fetchone\<close> of \<^verbatim>\<open>WHERE position = ?\<close>.\<close>

definition song_at_position :: "database \<Rightarrow> int \<Rightarrow> song_data option" where
  "song_at_position db p =
     map_option (song_dict db) (find (\<lambda>row. position row = p) (songs db))"

definition get_song_by_position ::
  "environment \<Rightarrow> int \<Rightarrow> coordinator \<Rightarrow> coordinator \<times> (exn + song_data option)" where
  "get_song_by_position env p c =
     and_then (store_call env (GetSongByPosition p) c)
       (\<lambda>_ c'. (c', Inr (song_at_position (db_manager c') p)))"

text \<open>
  \<^verbatim>\<open>get_upcoming_songs\<close>: \<^verbatim>\<open>WHERE position < ? ORDER BY position DESC LIMIT ?\<close>; each
  dictionary has the six selected columns and the position history.
\<close>

definition upcoming_dict :: "database \<Rightarrow> song \<Rightarrow> song_data" where
  "upcoming_dict db row =
     \<lparr> sd_id = song_id row, sd_position = position row, sd_artist = artist row,
       sd_title = title row, sd_year = year row, sd_cover_art_url = cover_art_url row,
       sd_cover_art_cached_at = None, sd_fun_facts = [],
       sd_position_history = get_position_history db (song_id row) 5 \<rparr>"



subsection \<open>Cover art (\<^verbatim>\<open>CoverArtClient.get_cover_art\<close>, \<^verbatim>\<open>_fetch_and_cache_cover_art\<close>)\<close>

text \<open>
  The value passed as \<^verbatim>\<open>cached_at\<close>: a \<^verbatim>\<open>datetime\<close>, as the signature asks, or the text
  the store returns for the timestamp column. \<^verbatim>\<open>datetime.now() - cached_at\<close> raises
  \<^verbatim>\<open>TypeError\<close> on text, before the \<^verbatim>\<open>try\<close> block of \<^verbatim>\<open>get_cover_art\<close> is entered.
\<close>

datatype timestamp_value = AsDatetime datetime | AsText datetime

definition search_cover_art ::
  "environment \<Rightarrow> string \<Rightarrow> string \<Rightarrow> coordinator
    \<Rightarrow> coordinator \<times> (exn + string option \<times> string option)" where
  "search_cover_art env a t c =
     (case search_musicbrainz env a t of
        (mb_id, cover_url) \<Rightarrow>
          (emit [MusicBrainzSearch a t] c,
           if truthy_str cover_url then Inr (cover_url, mb_id) else Inr (None, mb_id)))"

definition get_cover_art ::
  "environment \<Rightarrow> string \<Rightarrow> string \<Rightarrow> string option \<Rightarrow> timestamp_value option \<Rightarrow> coordinator
    \<Rightarrow> coordinator \<times> (exn + string option \<times> string option)" where
  "get_cover_art env a t cached_url cached_at c =
     (if truthy_str cached_url
      then (case cached_at of
              None \<Rightarrow> search_cover_art env a t c
            | Some (AsText _) \<Rightarrow> (c, Inl TypeError)
            | Some (AsDatetime cached) \<Rightarrow>
                if now env - cached < CACHE_DURATION then (c, Inr (cached_url, None))
                else search_cover_art env a t c)
      else search_cover_art env a t c)"

text \<open>
  The part of \<^verbatim>\<open>_fetch_and_cache_cover_art\<close> after the observation brought no cover URL.
  The song dictionary came from \<^verbatim>\<open>match_song\<close>, so its \<^verbatim>\<open>cover_art_cached_at\<close> is the
  store's text. The function returns the dictionary, which the program updates in place.
\<close>

definition lookup_cover_art ::
  "environment \<Rightarrow> song_data \<Rightarrow> coordinator \<Rightarrow> coordinator \<times> (exn + song_data)" where
  "lookup_cover_art env sd c =
     and_then (is_cover_art_cached env (sd_id sd) c)
       (\<lambda>cached c1.
          if cached then (c1, Inr sd)
          else and_then
                 (get_cover_art env (sd_artist sd) (sd_title sd) (sd_cover_art_url sd)
                    (map_option AsText (sd_cover_art_cached_at sd)) c1)
                 (\<lambda>(cover_url, mb_id) c2.
                    case cover_url of
                      None \<Rightarrow> (c2, Inr sd)
                    | Some url \<Rightarrow>
                        if url = [] then (c2, Inr sd)
                        else and_then (update_cover_art env (sd_id sd) url mb_id c2)
                               (\<lambda>_ c3. (c3, Inr (sd\<lparr> sd_cover_art_url := Some url \<rparr>)))))"

definition fetch_and_cache_cover_art ::
  "environment \<Rightarrow> song_data \<Rightarrow> string option \<Rightarrow> coordinator \<Rightarrow> coordinator \<times> (exn + song_data)"
where
  "fetch_and_cache_cover_art env sd npo_cover_url c =
     (case npo_cover_url of
        None \<Rightarrow> lookup_cover_art env sd c
      | Some url \<Rightarrow>
          if url = [] then lookup_cover_art env sd c
          else and_then (update_cover_art env (sd_id sd) url None c)
                 (\<lambda>_ c1. (c1, Inr (sd\<lparr> sd_cover_art_url := Some url \<rparr>))))"

subsection \<open>Notification rules and dispatch\<close>

text \<open>
  The loop of \<^verbatim>\<open>_matches_notification_rules\<close> over the enabled rules, on the lowered
  artist and title. A \<^verbatim>\<open>position_range\<close> rule, like a rule of any other type, falls
  through to the next rule.
\<close>

fun rules_loop :: "string \<Rightarrow> string \<Rightarrow> notification_rule list \<Rightarrow> bool" where
  "rules_loop a t [] = False"
| "rules_loop a t (rule # rules) =
     (if rule_type rule = ''artist'' \<and> str_contains (lower (match_pattern rule)) a then True
      else if rule_type rule = ''title'' \<and> str_contains (lower (match_pattern rule)) t then True
      else rules_loop a t rules)"

definition matches_notification_rules ::
  "environment \<Rightarrow> song_data \<Rightarrow> coordinator \<Rightarrow> coordinator \<times> (exn + bool)" where
  "matches_notification_rules env sd c =
     and_then (get_notification_rules env c)
       (\<lambda>rules c1.
          if rules = [] then (c1, Inr False)
          else (c1, Inr (rules_loop (lower (sd_artist sd)) (lower (sd_title sd)) rules)))"

text \<open>
  \<^verbatim>\<open>_send_notification\<close>: one service call per target, in order. A call that raises is
  caught inside the loop and logged; the loop goes on to the next target.
\<close>

definition send_notification ::
  "environment \<Rightarrow> song_data \<Rightarrow> settings \<Rightarrow> bool \<Rightarrow> coordinator \<Rightarrow> coordinator" where
  "send_notification env sd st is_current c =
     emit (map (\<lambda>target. ServiceCall target is_current sd (\<not> service_raises env target))
             (notification_targets st)) c"

definition check_and_send_notifications ::
  "environment \<Rightarrow> song_data \<Rightarrow> bool \<Rightarrow> coordinator \<Rightarrow> coordinator \<times> (exn + unit)" where
  "check_and_send_notifications env sd is_current c =
     and_then (get_notification_settings env c)
       (\<lambda>st c1.
          if is_current \<and> \<not> notify_current_song st then (c1, Inr ())
          else if \<not> is_current \<and> \<not> notify_upcoming_song st then (c1, Inr ())
          else and_then (matches_notification_rules env sd c1)
                 (\<lambda>matches c2.
                    if \<not> matches then (c2, Inr ())
                    else (send_notification env sd st is_current c2, Inr ())))"

text \<open>
  The loop of \<^verbatim>\<open>async_check_upcoming_notifications\<close> over the configured offsets.
\<close>

fun upcoming_loop ::
  "environment \<Rightarrow> settings \<Rightarrow> int \<Rightarrow> int list \<Rightarrow> coordinator \<Rightarrow> coordinator \<times> (exn + unit)"
where
  "upcoming_loop env st current [] c = (c, Inr ())"
| "upcoming_loop env st current (offset # offsets) c =
     (if current - offset < 1 then upcoming_loop env st current offsets c
      else and_then (get_song_by_position env (current - offset) c)
             (\<lambda>upcoming_song c1.
                case upcoming_song of
                  None \<Rightarrow> upcoming_loop env st current offsets c1
                | Some sd \<Rightarrow>
                    and_then (matches_notification_rules env sd c1)
                      (\<lambda>matches c2.
                         if matches
                         then upcoming_loop env st current offsets
                                (send_notification env sd st False c2)
                         else upcoming_loop env st current offsets c2)))"

text \<open>
  \<^verbatim>\<open>async_check_upcoming_notifications\<close>. The current position is read from
  \<^verbatim>\<open>self.data\<close>.
\<close>

definition async_check_upcoming_notifications ::
  "environment \<Rightarrow> coordinator \<Rightarrow> coordinator \<times> (exn + unit)" where
  "async_check_upcoming_notifications env c =
     (case data c of
        None \<Rightarrow> (c, Inr ())
      | Some d \<Rightarrow>
          (case current_song d of
             None \<Rightarrow> (c, Inr ())
           | Some cur \<Rightarrow>
               and_then (get_notification_settings env c)
                 (\<lambda>st c1.
                    if \<not> notify_upcoming_song st then (c1, Inr ())
                    else upcoming_loop env st (sd_position cur)
                           (upcoming_notify_positions st) c1)))"


subsection \<open>The tick (\<^verbatim>\<open>_async_update_data\<close>)\<close>

text \<open>Step 1: ask the metadata client; its requests are recorded.\<close>

definition fetch_metadata :: "environment \<Rightarrow> coordinator \<Rightarrow> coordinator \<times> metadata option" where
  "fetch_metadata env c =
     (case get_current_metadata (now env) (sources env) (npo_client c) of
        (result, client, asked) \<Rightarrow>
          (emit (map Upstream asked) (c\<lparr> npo_client := client \<rparr>), result))"

text \<open>Step 2: \<^verbatim>\<open>db_manager.match_song\<close>, a store call.\<close>

definition match_step ::
  "scorer \<Rightarrow> environment \<Rightarrow> string \<Rightarrow> string \<Rightarrow> coordinator
    \<Rightarrow> coordinator \<times> (exn + song_data option)" where
  "match_step pr env a t c =
     and_then (store_call env (MatchSong a t) c)
       (\<lambda>_ c1. (c1, Inr (match_song pr (db_manager c1) a t)))"

text \<open>
  Steps 3 to 6, run when the song changed, after \<^verbatim>\<open>_last_song_id\<close> has been assigned.
\<close>

definition side_effects ::
  "environment \<Rightarrow> metadata \<Rightarrow> song_data \<Rightarrow> coordinator \<Rightarrow> coordinator \<times> (exn + song_data)" where
  "side_effects env md song_match c =
     and_then (fetch_and_cache_cover_art env song_match (md_cover_art_url md) c)
       (\<lambda>sd c1.
          and_then (update_playlist_state env (sd_position sd) (sd_id sd) md c1)
            (\<lambda>_ c2.
               and_then (check_and_send_notifications env sd True c2)
                 (\<lambda>_ c3.
                    and_then (async_check_upcoming_notifications env c3)
                      (\<lambda>_ c4. (c4, Inr sd)))))"

text \<open>The body of the \<^verbatim>\<open>try\<close> block.\<close>

definition update_body ::
  "scorer \<Rightarrow> environment \<Rightarrow> coordinator \<Rightarrow> coordinator \<times> (exn + tick_data)" where
  "update_body pr env c =
     (case fetch_metadata env c of
        (c0, None) \<Rightarrow>
          (c0, Inr \<lparr> current_song = None, song_changed = False,
                     error = Some NoMetadataAvailable, raw_metadata = None,
                     npo_metadata = None \<rparr>)
      | (c0, Some md) \<Rightarrow>
          and_then (match_step pr env (md_artist md) (md_title md) c0)
            (\<lambda>song_match c1.
               case song_match of
                 None \<Rightarrow>
                   (c1, Inr \<lparr> current_song = None, song_changed = False,
                              error = Some (NotInTop2000 (md_artist md) (md_title md)),
                              raw_metadata = Some md, npo_metadata = None \<rparr>)
               | Some sm \<Rightarrow>
                   if Some (sd_id sm) \<noteq> last_song_id c1
                   then and_then
                          (side_effects env md sm (c1\<lparr> last_song_id := Some (sd_id sm) \<rparr>))
                          (\<lambda>sd c2.
                             (c2, Inr \<lparr> current_song = Some sd, song_changed = True,
                                        error = None, raw_metadata = None,
                                        npo_metadata = Some md \<rparr>))
                   else (c1, Inr \<lparr> current_song = Some sm, song_changed = False,
                                   error = None, raw_metadata = None,
                                   npo_metadata = Some md \<rparr>)))"

text \<open>
  \<^verbatim>\<open>_async_update_data\<close>: the \<^verbatim>\<open>except Exception\<close> around the body turns whatever was
  raised into \<^verbatim>\<open>UpdateFailed\<close>.
\<close>

definition async_update_data ::
  "scorer \<Rightarrow> environment \<Rightarrow> coordinator \<Rightarrow> coordinator \<times> (update_failed + tick_data)" where
  "async_update_data pr env c =
     (case update_body pr env c of
        (c', Inl e) \<Rightarrow> (c', Inl (UpdateFailed e))
      | (c', Inr d) \<Rightarrow> (c', Inr d))"

subsection \<open>Predicates used to state the properties\<close>

text \<open>
  When a single rule applies to a lowered artist and title, in the words of the rule
  grammar: an artist rule whose lowered pattern occurs in the artist, or a title rule
  whose lowered pattern occurs in the title.
\<close>

definition rule_matches :: "string \<Rightarrow> string \<Rightarrow> notification_rule \<Rightarrow> bool" where
  "rule_matches a t rule =
     (rule_type rule = ''artist'' \<and> sublist (lower (match_pattern rule)) a
      \<or> rule_type rule = ''title'' \<and> sublist (lower (match_pattern rule)) t)"

fun is_service_call :: "event \<Rightarrow> bool" where
  "is_service_call (ServiceCall target is_current sd ok) = True"
| "is_service_call _ = False"




text \<open>
  A step keeps what it does not own: the tracked song id, \<^verbatim>\<open>data\<close> and the client are
  untouched, and the record of effects only grows.
\<close>

definition keeps :: "coordinator \<Rightarrow> coordinator \<Rightarrow> bool" where
  "keeps c c' =
     (last_song_id c' = last_song_id c \<and> data c' = data c \<and> npo_client c' = npo_client c
      \<and> prefix (trace c) (trace c'))"

subsection \<open>A small catalog to evaluate the definitions on\<close>

definition bohemian :: song where
  "bohemian = \<lparr> song_id = 1, position = 499, artist = ''Queen'', title = ''Bohemian Rhapsody'',
      year = Some 1975, musicbrainz_id = None, cover_art_url = None,
      cover_art_cached_at = None \<rparr>"

definition hotel_live :: song where
  "hotel_live = \<lparr> song_id = 2, position = 502, artist = ''Eagles'',
      title = ''Hotel California (Live)'', year = Some 1980, musicbrainz_id = None,
      cover_art_url = None, cover_art_cached_at = None \<rparr>"

definition hotel_studio :: song where
  "hotel_studio = \<lparr> song_id = 3, position = 500, artist = ''Eagles'',
      title = ''Hotel California'', year = Some 1977, musicbrainz_id = None,
      cover_art_url = None, cover_art_cached_at = None \<rparr>"

definition comfortably :: song where
  "comfortably = \<lparr> song_id = 4, position = 498, artist = ''Pink Floyd'',
      title = ''Comfortably Numb'', year = Some 1979, musicbrainz_id = None,
      cover_art_url = None, cover_art_cached_at = None \<rparr>"

definition example_rules :: "notification_rule list" where
  "example_rules =
     [\<lparr> rule_id = 1, rule_type = ''position_range'', match_pattern = ''1-10'', enabled = True \<rparr>,
      \<lparr> rule_id = 2, rule_type = ''artist'', match_pattern = ''Queen'', enabled = True \<rparr>,
      \<lparr> rule_id = 3, rule_type = ''title'', match_pattern = ''Bohemian'', enabled = True \<rparr>,
      \<lparr> rule_id = 4, rule_type = ''artist'', match_pattern = ''Eagles'', enabled = False \<rparr>]"

definition example_settings :: settings_row where
  "example_settings =
     \<lparr> row_notification_targets = Some [''persistent_notification'', ''notify.phone''],
       row_notify_current_song = True, row_notify_upcoming_song = True,
       row_upcoming_notify_positions = Some [1, 2, 3, 600] \<rparr>"

definition example_db :: database where
  "example_db = \<lparr> songs = [bohemian, hotel_live, hotel_studio, comfortably],
      fun_facts = [\<lparr> ff_song_id = 1, fact_text = ''Six minutes long'', fact_order = 1 \<rparr>],
      position_history = [\<lparr> ph_song_id = 1, ph_year = 2024, ph_position = 2 \<rparr>],
      playlist_state = None,
      notification_rules = example_rules,
      notification_settings = Some example_settings \<rparr>"

text \<open>Observations, sources, an environment in which nothing fails, and coordinators.\<close>

definition queen_observation :: metadata where
  "queen_observation =
     \<lparr> md_artist = ''Queen'', md_title = ''Bohemian Rhapsody (Remastered)'',
       md_cover_art_url = None \<rparr>"

definition eagles_observation :: metadata where
  "eagles_observation =
     \<lparr> md_artist = ''Eagles'', md_title = ''Hotel California'',
       md_cover_art_url = Some ''https://img.example/hotel.jpg'' \<rparr>"

definition website_down :: upstream where
  "website_down = \<lparr> scrape_npo_website = Raises,
      fetch_icecast_metadata = Returns (Some queen_observation),
      scrape_onlineradiobox = Raises \<rparr>"

definition all_down :: upstream where
  "all_down = \<lparr> scrape_npo_website = Raises, fetch_icecast_metadata = Returns None,
      scrape_onlineradiobox = Raises \<rparr>"

definition website_up :: upstream where
  "website_up = \<lparr> scrape_npo_website = Returns (Some eagles_observation),
      fetch_icecast_metadata = Raises, scrape_onlineradiobox = Raises \<rparr>"

definition empty_client :: NPOClient where
  "empty_client = \<lparr> last_fetch = None, cached_metadata = None \<rparr>"

definition calm :: environment where
  "calm = \<lparr> now = 1000000000, sources = website_down, store_raises = (\<lambda>op. False),
      search_musicbrainz = (\<lambda>a t. (None, None)), service_raises = (\<lambda>target. False) \<rparr>"

text \<open>The same environment, except that the write of the playlist state raises.\<close>

fun is_playlist_write :: "db_op \<Rightarrow> bool" where
  "is_playlist_write (UpdatePlaylistState pos sid md) = True"
| "is_playlist_write _ = False"

definition write_fails :: environment where
  "write_fails = calm\<lparr> store_raises := is_playlist_write \<rparr>"

definition fresh_coordinator :: coordinator where
  "fresh_coordinator = \<lparr> last_song_id = None, data = None, db_manager = example_db,
      npo_client = empty_client, trace = [] \<rparr>"

text \<open>A coordinator that already tracks the Queen row.\<close>

definition tracking_queen :: coordinator where
  "tracking_queen = \<lparr> last_song_id = Some 1,
      data = Some \<lparr> current_song = Some (song_dict example_db bohemian),
                    song_changed = True, error = None, raw_metadata = None,
                    npo_metadata = Some queen_observation \<rparr>,
      db_manager = example_db, npo_client = empty_client, trace = [] \<rparr>"


text \<open>The states the example ticks pass through.\<close>

definition queen_fetched :: coordinator where
  "queen_fetched = emit [Upstream NPOWebsite, Upstream Icecast]
     (fresh_coordinator\<lparr> npo_client :=
        \<lparr> last_fetch = Some 1000000000, cached_metadata = Some queen_observation \<rparr> \<rparr>)"

definition queen_tracked :: coordinator where
  "queen_tracked =
     (emit [StoreCall (MatchSong ''Queen'' ''Bohemian Rhapsody (Remastered)'')] queen_fetched)
       \<lparr> last_song_id := Some 1 \<rparr>"

definition after_failed_write :: coordinator where
  "after_failed_write =
     emit [StoreCall (IsCoverArtCached 1), MusicBrainzSearch ''Queen'' ''Bohemian Rhapsody'',
           StoreCall (UpdatePlaylistState 499 1 queen_observation)] queen_tracked"

definition queen_cover_checked :: coordinator where
  "queen_cover_checked =
     emit [StoreCall (IsCoverArtCached 1), MusicBrainzSearch ''Queen'' ''Bohemian Rhapsody'']
       queen_tracked"

definition queen_persisted :: coordinator where
  "queen_persisted =
     (emit [StoreCall (UpdatePlaylistState 499 1 queen_observation)] queen_cover_checked)
       \<lparr> db_manager := example_db\<lparr> playlist_state :=
            Some \<lparr> current_position = 499, current_song_id = 1, detected_at = 1000000000,
                   npo_metadata_json = queen_observation \<rparr> \<rparr> \<rparr>"

definition queen_notified :: coordinator where
  "queen_notified =
     emit [StoreCall GetNotificationSettings, StoreCall GetNotificationRules,
           ServiceCall ''persistent_notification'' True (song_dict example_db bohemian) True,
           ServiceCall ''notify.phone'' True (song_dict example_db bohemian) True]
       queen_persisted"

definition queen_refetched :: coordinator where
  "queen_refetched = emit [Upstream NPOWebsite, Upstream Icecast]
     (tracking_queen\<lparr> npo_client :=
        \<lparr> last_fetch = Some 1000000000, cached_metadata = Some queen_observation \<rparr> \<rparr>)"

section \<open>Properties of the matcher\<close>

lemma str_contains_sublist: "str_contains p s = sublist p s"
  by (induction s) (auto simp: sublist_Cons_right)

text \<open>
  What the loop returns from any starting pair: either nothing replaced the pair, or the
  rows split around the winner, every row before it scoring strictly less and every row
  after it at most as much.
\<close>

lemma match_loop_result:
  "(match_loop pr a t rows (bm, bs) = (bm, bs)
      \<and> (\<forall>x \<in> set rows. \<not> (combined_score pr a t x > bs
              \<and> combined_score pr a t x \<ge> FUZZY_MATCH_THRESHOLD)))
   \<or> (\<exists>pre w post. rows = pre @ w # post
        \<and> match_loop pr a t rows (bm, bs) = (Some w, combined_score pr a t w)
        \<and> combined_score pr a t w > bs
        \<and> combined_score pr a t w \<ge> FUZZY_MATCH_THRESHOLD
        \<and> (\<forall>x \<in> set pre. combined_score pr a t x < combined_score pr a t w)
        \<and> (\<forall>y \<in> set post. combined_score pr a t y \<le> combined_score pr a t w))"
proof (induction rows arbitrary: bm bs)
  case Nil
  show ?case by simp
next
  case (Cons r rows)
  let ?c = "combined_score pr a t"
  show ?case
  proof (cases "?c r > bs \<and> ?c r \<ge> FUZZY_MATCH_THRESHOLD")
    case True
    from Cons.IH [of "Some r" "?c r"] show ?thesis
    proof (elim disjE exE conjE)
      assume same: "match_loop pr a t rows (Some r, ?c r) = (Some r, ?c r)"
        and none: "\<forall>x \<in> set rows. \<not> (?c x > ?c r \<and> ?c x \<ge> FUZZY_MATCH_THRESHOLD)"
      from none True have "\<forall>y \<in> set rows. ?c y \<le> ?c r"
        by (meson less_le_trans not_le_imp_less order.strict_implies_order)
      with same True have "r # rows = [] @ r # rows
        \<and> match_loop pr a t (r # rows) (bm, bs) = (Some r, ?c r)
        \<and> ?c r > bs \<and> ?c r \<ge> FUZZY_MATCH_THRESHOLD
        \<and> (\<forall>x \<in> set []. ?c x < ?c r) \<and> (\<forall>y \<in> set rows. ?c y \<le> ?c r)"
        by simp
      then show ?thesis by blast
    next
      fix pre w post
      assume split: "rows = pre @ w # post"
        and res: "match_loop pr a t rows (Some r, ?c r) = (Some w, ?c w)"
        and gt: "?c w > ?c r" and thr: "?c w \<ge> FUZZY_MATCH_THRESHOLD"
        and before: "\<forall>x \<in> set pre. ?c x < ?c w"
        and after: "\<forall>y \<in> set post. ?c y \<le> ?c w"
      from split res gt thr before after True
      have "r # rows = (r # pre) @ w # post
        \<and> match_loop pr a t (r # rows) (bm, bs) = (Some w, ?c w)
        \<and> ?c w > bs \<and> ?c w \<ge> FUZZY_MATCH_THRESHOLD
        \<and> (\<forall>x \<in> set (r # pre). ?c x < ?c w) \<and> (\<forall>y \<in> set post. ?c y \<le> ?c w)"
        by auto
      then show ?thesis by blast
    qed
  next
    case False
    from Cons.IH [of bm bs] show ?thesis
    proof (elim disjE exE conjE)
      assume same: "match_loop pr a t rows (bm, bs) = (bm, bs)"
        and none: "\<forall>x \<in> set rows. \<not> (?c x > bs \<and> ?c x \<ge> FUZZY_MATCH_THRESHOLD)"
      with False show ?thesis by auto
    next
      fix pre w post
      assume split: "rows = pre @ w # post"
        and res: "match_loop pr a t rows (bm, bs) = (Some w, ?c w)"
        and gt: "?c w > bs" and thr: "?c w \<ge> FUZZY_MATCH_THRESHOLD"
        and before: "\<forall>x \<in> set pre. ?c x < ?c w"
        and after: "\<forall>y \<in> set post. ?c y \<le> ?c w"
      from False gt thr have "?c r < ?c w" by linarith
      with split res gt thr before after False
      have "r # rows = (r # pre) @ w # post
        \<and> match_loop pr a t (r # rows) (bm, bs) = (Some w, ?c w)
        \<and> ?c w > bs \<and> ?c w \<ge> FUZZY_MATCH_THRESHOLD
        \<and> (\<forall>x \<in> set (r # pre). ?c x < ?c w) \<and> (\<forall>y \<in> set post. ?c y \<le> ?c w)"
        by auto
      then show ?thesis by blast
    qed
  qed
qed

lemma containment_ratio_same: "containment_ratio x x = 100"
  by (simp add: containment_ratio_def str_contains_sublist)

lemma containment_ratio_le: "containment_ratio x y \<le> 100"
  by (simp add: containment_ratio_def)

lemmas ex = bohemian_def hotel_live_def hotel_studio_def comfortably_def example_db_def
  combined_score_def containment_ratio_def lower_def lower_char_def FUZZY_MATCH_THRESHOLD_def
  match_song_def match_score_def

text \<open>
  C3. The loop keeps its best candidate when a row's combined score is not strictly
  greater (first conjunct). So whenever \<^verbatim>\<open>match_song\<close> returns a song, the catalog
  splits around the returned row: every row enumerated before it has a strictly smaller
  combined score, every row after it at most the same score. Among rows that tie at the
  top the first one enumerated is returned.
\<close>

theorem match_song_first_seen:
  "(combined_score pr a t row \<le> best_score \<longrightarrow>
      match_loop pr a t (row # rows) (best_match, best_score)
        = match_loop pr a t rows (best_match, best_score))
   \<and> (match_song pr db a t = Some sd \<longrightarrow>
      (\<exists>pre w post. songs db = pre @ w # post \<and> sd = song_dict db w
        \<and> match_score pr db a t = combined_score pr a t w
        \<and> (\<forall>x \<in> set pre. combined_score pr a t x < combined_score pr a t w)
        \<and> (\<forall>y \<in> set post. combined_score pr a t y \<le> combined_score pr a t w)))"
proof (intro conjI impI)
  assume "combined_score pr a t row \<le> best_score"
  then show "match_loop pr a t (row # rows) (best_match, best_score)
      = match_loop pr a t rows (best_match, best_score)"
    by simp
next
  assume some: "match_song pr db a t = Some sd"
  from match_loop_result [of pr a t "songs db" None 0]
  show "\<exists>pre w post. songs db = pre @ w # post \<and> sd = song_dict db w
        \<and> match_score pr db a t = combined_score pr a t w
        \<and> (\<forall>x \<in> set pre. combined_score pr a t x < combined_score pr a t w)
        \<and> (\<forall>y \<in> set post. combined_score pr a t y \<le> combined_score pr a t w)"
  proof (elim disjE exE conjE)
    assume "match_loop pr a t (songs db) (None, 0) = (None, 0)"
    with some show ?thesis by (simp add: match_song_def)
  next
    fix pre w post
    assume split: "songs db = pre @ w # post"
      and res: "match_loop pr a t (songs db) (None, 0) = (Some w, combined_score pr a t w)"
      and before: "\<forall>x \<in> set pre. combined_score pr a t x < combined_score pr a t w"
      and after: "\<forall>y \<in> set post. combined_score pr a t y \<le> combined_score pr a t w"
    from res some have "sd = song_dict db w"
      by (simp add: match_song_def)
    moreover from res have "match_score pr db a t = combined_score pr a t w"
      by (simp add: match_score_def)
    ultimately show ?thesis using split before after by blast
  qed
qed

text \<open>
  The tie in the example catalog: the observation (eagles, hotel california) scores the
  same on the live and on the studio row; the live row is enumerated first and is returned.
\<close>

theorem match_song_first_seen_witness:
  "combined_score containment_ratio ''eagles'' ''hotel california'' hotel_live
     = combined_score containment_ratio ''eagles'' ''hotel california'' hotel_studio
   \<and> match_loop containment_ratio ''eagles'' ''hotel california'' [hotel_studio]
        (Some hotel_live, 100) = (Some hotel_live, 100)
   \<and> match_song containment_ratio example_db ''eagles'' ''hotel california''
        = Some (song_dict example_db hotel_live)
   \<and> (\<exists>pre w post. songs example_db = pre @ w # post
        \<and> song_dict example_db hotel_live = song_dict example_db w
        \<and> match_score containment_ratio example_db ''eagles'' ''hotel california''
            = combined_score containment_ratio ''eagles'' ''hotel california'' w
        \<and> (\<forall>x \<in> set pre. combined_score containment_ratio ''eagles'' ''hotel california'' x
              < combined_score containment_ratio ''eagles'' ''hotel california'' w)
        \<and> (\<forall>y \<in> set post. combined_score containment_ratio ''eagles'' ''hotel california'' y
              \<le> combined_score containment_ratio ''eagles'' ''hotel california'' w))"
proof -
  have tie: "combined_score containment_ratio ''eagles'' ''hotel california'' hotel_studio \<le> 100"
    by (simp add: ex)
  have found: "match_song containment_ratio example_db ''eagles'' ''hotel california''
        = Some (song_dict example_db hotel_live)"
    by (simp add: ex)
  from match_song_first_seen [where pr = containment_ratio and a = "''eagles''"
      and t = "''hotel california''" and row = hotel_studio and best_score = 100
      and rows = "[]" and best_match = "Some hotel_live" and db = example_db
      and sd = "song_dict example_db hotel_live"] tie found
  show ?thesis by (simp add: ex)
qed

text \<open>
  C5. \<^verbatim>\<open>match_song\<close> returns \<^verbatim>\<open>None\<close> exactly when every row of the catalog has a
  combined score below the threshold, the threshold is 85, and an empty catalog gives
  \<^verbatim>\<open>None\<close>. The observation is arbitrary: an empty or blank artist or title goes through
  the same scoring, there is no earlier exit for it.
\<close>

theorem match_song_none_iff:
  "((match_song pr db a t = None)
      = (\<forall>row \<in> set (songs db). combined_score pr a t row < FUZZY_MATCH_THRESHOLD))
   \<and> FUZZY_MATCH_THRESHOLD = 85
   \<and> (songs db = [] \<longrightarrow> match_song pr db a t = None)"
proof (intro conjI impI)
  from match_loop_result [of pr a t "songs db" None 0]
  show "(match_song pr db a t = None)
      = (\<forall>row \<in> set (songs db). combined_score pr a t row < FUZZY_MATCH_THRESHOLD)"
  proof (elim disjE exE conjE)
    assume same: "match_loop pr a t (songs db) (None, 0) = (None, 0)"
      and none: "\<forall>x \<in> set (songs db). \<not> (combined_score pr a t x > 0
              \<and> combined_score pr a t x \<ge> FUZZY_MATCH_THRESHOLD)"
    from none have "\<forall>row \<in> set (songs db). combined_score pr a t row < FUZZY_MATCH_THRESHOLD"
      by (auto simp: FUZZY_MATCH_THRESHOLD_def not_le) 
    with same show ?thesis by (simp add: match_song_def)
  next
    fix pre w post
    assume split: "songs db = pre @ w # post"
      and res: "match_loop pr a t (songs db) (None, 0) = (Some w, combined_score pr a t w)"
      and thr: "combined_score pr a t w \<ge> FUZZY_MATCH_THRESHOLD"
    from split have "w \<in> set (songs db)" by simp
    with thr have "\<not> (\<forall>row \<in> set (songs db). combined_score pr a t row < FUZZY_MATCH_THRESHOLD)"
      by (auto simp: not_less)
    with res show ?thesis by (simp add: match_song_def)
  qed
next
  show "FUZZY_MATCH_THRESHOLD = 85" by (simp add: FUZZY_MATCH_THRESHOLD_def)
next
  assume "songs db = []"
  then show "match_song pr db a t = None" by (simp add: match_song_def)
qed

text \<open>
  An observation below the threshold everywhere, one above it, a blank observation that
  is scored (and matched: a single space occurs in both fields of one row), and the empty
  catalog.
\<close>

theorem match_song_none_iff_witness:
  "match_song containment_ratio example_db ''abba'' ''waterloo'' = None
   \<and> match_song containment_ratio example_db ''queen'' ''bohemian rhapsody (remastered)'' \<noteq> None
   \<and> match_song containment_ratio example_db '' '' '' '' \<noteq> None
   \<and> match_song containment_ratio (example_db\<lparr>songs := []\<rparr>) ''queen'' ''bohemian rhapsody'' = None"
  using match_song_none_iff [of containment_ratio example_db "''abba''" "''waterloo''"]
    match_song_none_iff [of containment_ratio example_db "''queen''" "''bohemian rhapsody (remastered)''"]
    match_song_none_iff [of containment_ratio example_db "'' ''" "'' ''"]
    match_song_none_iff [of containment_ratio "example_db\<lparr>songs := []\<rparr>" "''queen''" "''bohemian rhapsody''"]
  by (simp add: bohemian_def hotel_live_def hotel_studio_def comfortably_def example_db_def
      combined_score_def containment_ratio_def lower_def lower_char_def)

text \<open>
  C4, as stated, fails: the observation equal to the studio row's artist and title is
  matched to the live row, which is enumerated earlier and reaches 100 as well.
\<close>

theorem match_identical_strings_counterexample:
  "hotel_studio \<in> set (songs example_db)
   \<and> lower ''EAGLES'' = lower (artist hotel_studio)
   \<and> lower ''Hotel California'' = lower (title hotel_studio)
   \<and> match_song containment_ratio example_db ''EAGLES'' ''Hotel California''
        = Some (song_dict example_db hotel_live)
   \<and> sd_id (song_dict example_db hotel_live) \<noteq> sd_id (song_dict example_db hotel_studio)"
  by (simp add: ex song_dict_def)

text \<open>
  C4, amended. For a scorer that gives 100 on equal strings and never more than 100, an
  observation equal up to case to the artist and title of a catalog row E ends with
  combined score 100, and \<^verbatim>\<open>match_song\<close> returns the first enumerated row whose
  combined score is 100: E itself, unless a row before E reaches 100 too.
\<close>

theorem match_identical_strings:
  assumes same: "\<forall>x. pr x x = 100" and bound: "\<forall>x y. pr x y \<le> 100"
    and mem: "E \<in> set (songs db)"
    and art: "lower a = lower (artist E)" and tit: "lower t = lower (title E)"
  shows "match_score pr db a t = 100
    \<and> (\<exists>pre w post. songs db = pre @ w # post
          \<and> match_song pr db a t = Some (song_dict db w)
          \<and> combined_score pr a t w = 100
          \<and> (\<forall>x \<in> set pre. combined_score pr a t x < 100)
          \<and> (w = E \<or> E \<in> set post))"
proof -
  let ?c = "combined_score pr a t"
  from same art tit have cE: "?c E = 100"
    by (simp add: combined_score_def)
  have le: "?c x \<le> 100" for x
    using bound [rule_format, of "lower a" "lower (artist x)"]
      bound [rule_format, of "lower t" "lower (title x)"]
    by (simp add: combined_score_def)
  from match_loop_result [of pr a t "songs db" None 0] show ?thesis
  proof (elim disjE exE conjE)
    assume "\<forall>x \<in> set (songs db). \<not> (?c x > 0 \<and> ?c x \<ge> FUZZY_MATCH_THRESHOLD)"
    with mem cE show ?thesis by (auto simp: FUZZY_MATCH_THRESHOLD_def)
  next
    fix pre w post
    assume split: "songs db = pre @ w # post"
      and res: "match_loop pr a t (songs db) (None, 0) = (Some w, ?c w)"
      and before: "\<forall>x \<in> set pre. ?c x < ?c w"
      and after: "\<forall>y \<in> set post. ?c y \<le> ?c w"
    from mem split have where_E: "E \<in> set pre \<or> w = E \<or> E \<in> set post" by auto
    have "?c E \<le> ?c w" using where_E before after by auto
    with cE le [of w] have cw: "?c w = 100" by simp
    with before cE where_E have "w = E \<or> E \<in> set post" by auto
    moreover from res cw have "match_score pr db a t = 100"
      by (simp add: match_score_def)
    moreover from res have "match_song pr db a t = Some (song_dict db w)"
      by (simp add: match_song_def)
    ultimately show ?thesis using split cw before by auto
  qed
qed

theorem match_identical_strings_witness:
  "(\<forall>x. containment_ratio x x = 100) \<and> (\<forall>x y. containment_ratio x y \<le> 100)
   \<and> bohemian \<in> set (songs example_db)
   \<and> lower ''QUEEN'' = lower (artist bohemian)
   \<and> lower ''Bohemian rhapsody'' = lower (title bohemian)
   \<and> match_score containment_ratio example_db ''QUEEN'' ''Bohemian rhapsody'' = 100
   \<and> match_song containment_ratio example_db ''QUEEN'' ''Bohemian rhapsody''
        = Some (song_dict example_db bohemian)"
proof -
  have h1: "\<forall>x. containment_ratio x x = 100" by (simp add: containment_ratio_same)
  have h2: "\<forall>x y. containment_ratio x y \<le> 100" by (simp add: containment_ratio_le)
  have h3: "bohemian \<in> set (songs example_db)" by (simp add: example_db_def)
  have h4: "lower ''QUEEN'' = lower (artist bohemian)"
    by (simp add: bohemian_def lower_def lower_char_def)
  have h5: "lower ''Bohemian rhapsody'' = lower (title bohemian)"
    by (simp add: bohemian_def lower_def lower_char_def)
  have "match_song containment_ratio example_db ''QUEEN'' ''Bohemian rhapsody''
        = Some (song_dict example_db bohemian)"
    by (simp add: ex)
  with match_identical_strings [OF h1 h2 h3 h4 h5] h1 h2 h3 h4 h5
  show ?thesis by simp
qed

section \<open>Properties of the metadata client\<close>

lemma fetch_chain_cases:
  "fetch_chain clock up cl =
     (if \<not> stage_failed (scrape_npo_website up)
      then (case scrape_npo_website up of Returns r \<Rightarrow> (r, cache_metadata clock (the r) cl, [NPOWebsite]))
      else if \<not> stage_failed (fetch_icecast_metadata up)
      then (case fetch_icecast_metadata up of Returns r \<Rightarrow> (r, cache_metadata clock (the r) cl, [NPOWebsite, Icecast]))
      else if \<not> stage_failed (scrape_onlineradiobox up)
      then (case scrape_onlineradiobox up of Returns r \<Rightarrow> (r, cache_metadata clock (the r) cl, [NPOWebsite, Icecast, OnlineRadioBox]))
      else (None, cl, [NPOWebsite, Icecast, OnlineRadioBox]))"
  by (auto simp: fetch_chain_def split: stage_outcome.splits option.splits)

text \<open>
  C6. \<^verbatim>\<open>get_current_metadata\<close> always returns (the model has no exceptional result: each
  source's exception is caught in its own block). Within 30 seconds of the last fetch it
  returns the cached observation and asks no source. After a cache miss the first source
  that yields an observation ends the chain: the observation is cached with the time of
  the fetch and returned, and only the sources up to that one were asked. The result is
  \<^verbatim>\<open>None\<close> exactly when the cache missed and all three sources failed, and then all three
  were asked and the cache is unchanged.
\<close>

theorem get_current_metadata_fallback:
  "(cached_metadata cl = Some cached \<and> last_fetch cl = Some fetched
      \<and> clock - fetched < 30 * 1000000
      \<longrightarrow> get_current_metadata clock up cl = (Some cached, cl, []))
   \<and> (cache_hit clock cl = None \<longrightarrow>
        (scrape_npo_website up = Returns (Some md)
          \<longrightarrow> get_current_metadata clock up cl
              = (Some md, cl\<lparr> cached_metadata := Some md, last_fetch := Some clock \<rparr>,
                 [NPOWebsite]))
      \<and> (stage_failed (scrape_npo_website up)
          \<and> fetch_icecast_metadata up = Returns (Some md)
          \<longrightarrow> get_current_metadata clock up cl
              = (Some md, cl\<lparr> cached_metadata := Some md, last_fetch := Some clock \<rparr>,
                 [NPOWebsite, Icecast]))
      \<and> (stage_failed (scrape_npo_website up) \<and> stage_failed (fetch_icecast_metadata up)
          \<and> scrape_onlineradiobox up = Returns (Some md)
          \<longrightarrow> get_current_metadata clock up cl
              = (Some md, cl\<lparr> cached_metadata := Some md, last_fetch := Some clock \<rparr>,
                 [NPOWebsite, Icecast, OnlineRadioBox])))
   \<and> (fst (get_current_metadata clock up cl) = None
        \<longleftrightarrow> cache_hit clock cl = None \<and> stage_failed (scrape_npo_website up)
            \<and> stage_failed (fetch_icecast_metadata up)
            \<and> stage_failed (scrape_onlineradiobox up))
   \<and> (fst (get_current_metadata clock up cl) = None
        \<longrightarrow> get_current_metadata clock up cl = (None, cl, [NPOWebsite, Icecast, OnlineRadioBox]))"
proof (intro conjI impI)
  assume "cached_metadata cl = Some cached \<and> last_fetch cl = Some fetched
      \<and> clock - fetched < 30 * 1000000"
  then show "get_current_metadata clock up cl = (Some cached, cl, [])"
    by (simp add: get_current_metadata_def cache_hit_def cache_duration_def)
next
  assume "cache_hit clock cl = None" "scrape_npo_website up = Returns (Some md)"
  then show "get_current_metadata clock up cl
      = (Some md, cl\<lparr> cached_metadata := Some md, last_fetch := Some clock \<rparr>, [NPOWebsite])"
    by (simp add: get_current_metadata_def fetch_chain_def cache_metadata_def)
next
  assume "cache_hit clock cl = None"
    "stage_failed (scrape_npo_website up) \<and> fetch_icecast_metadata up = Returns (Some md)"
  then show "get_current_metadata clock up cl
      = (Some md, cl\<lparr> cached_metadata := Some md, last_fetch := Some clock \<rparr>,
         [NPOWebsite, Icecast])"
    by (simp add: get_current_metadata_def fetch_chain_cases cache_metadata_def)
next
  assume "cache_hit clock cl = None"
    "stage_failed (scrape_npo_website up) \<and> stage_failed (fetch_icecast_metadata up)
      \<and> scrape_onlineradiobox up = Returns (Some md)"
  then show "get_current_metadata clock up cl
      = (Some md, cl\<lparr> cached_metadata := Some md, last_fetch := Some clock \<rparr>,
         [NPOWebsite, Icecast, OnlineRadioBox])"
    by (simp add: get_current_metadata_def fetch_chain_cases cache_metadata_def)
next
  show "fst (get_current_metadata clock up cl) = None
        \<longleftrightarrow> cache_hit clock cl = None \<and> stage_failed (scrape_npo_website up)
            \<and> stage_failed (fetch_icecast_metadata up)
            \<and> stage_failed (scrape_onlineradiobox up)"
    by (cases "scrape_npo_website up"; cases "fetch_icecast_metadata up";
        cases "scrape_onlineradiobox up")
      (auto simp: get_current_metadata_def fetch_chain_def
        split: option.splits stage_outcome.splits)
next
  assume "fst (get_current_metadata clock up cl) = None"
  then show "get_current_metadata clock up cl = (None, cl, [NPOWebsite, Icecast, OnlineRadioBox])"
    by (cases "scrape_npo_website up"; cases "fetch_icecast_metadata up";
        cases "scrape_onlineradiobox up")
      (auto simp: get_current_metadata_def fetch_chain_def
        split: option.splits stage_outcome.splits)
qed

lemmas client_ex = website_down_def all_down_def website_up_def empty_client_def
  queen_observation_def eagles_observation_def

text \<open>
  The website raises and the stream answers: two sources asked, the answer cached. A call
  29.999999 seconds later is served from the cache although every source is down; one
  30 seconds later asks all three and returns \<^verbatim>\<open>None\<close>.
\<close>

theorem get_current_metadata_fallback_witness:
  "get_current_metadata 5000000 website_down empty_client
     = (Some queen_observation,
        \<lparr> last_fetch = Some 5000000, cached_metadata = Some queen_observation \<rparr>,
        [NPOWebsite, Icecast])
   \<and> get_current_metadata 34999999 all_down
        \<lparr> last_fetch = Some 5000000, cached_metadata = Some queen_observation \<rparr>
     = (Some queen_observation,
        \<lparr> last_fetch = Some 5000000, cached_metadata = Some queen_observation \<rparr>, [])
   \<and> get_current_metadata 35000000 all_down
        \<lparr> last_fetch = Some 5000000, cached_metadata = Some queen_observation \<rparr>
     = (None, \<lparr> last_fetch = Some 5000000, cached_metadata = Some queen_observation \<rparr>,
        [NPOWebsite, Icecast, OnlineRadioBox])
   \<and> get_current_metadata 5000000 website_up empty_client
     = (Some eagles_observation,
        \<lparr> last_fetch = Some 5000000, cached_metadata = Some eagles_observation \<rparr>,
        [NPOWebsite])"
  using get_current_metadata_fallback [where cl = empty_client and clock = 5000000
      and up = website_down and md = queen_observation]
    get_current_metadata_fallback [where
      cl = "\<lparr> last_fetch = Some 5000000, cached_metadata = Some queen_observation \<rparr>"
      and cached = queen_observation and fetched = 5000000 and clock = 34999999 and up = all_down]
    get_current_metadata_fallback [where
      cl = "\<lparr> last_fetch = Some 5000000, cached_metadata = Some queen_observation \<rparr>"
      and clock = 35000000 and up = all_down]
    get_current_metadata_fallback [where cl = empty_client and clock = 5000000
      and up = website_up and md = eagles_observation]
  by (simp add: client_ex cache_hit_def cache_duration_def)

section \<open>Properties of the coordinator\<close>

lemma emit_fields [simp]:
  "trace (emit evs c) = trace c @ evs"
  "last_song_id (emit evs c) = last_song_id c"
  "data (emit evs c) = data c"
  "db_manager (emit evs c) = db_manager c"
  "npo_client (emit evs c) = npo_client c"
  by (simp_all add: emit_def)

lemma emit_emit [simp]: "emit evs (emit evs' c) = emit (evs' @ evs) c"
  by (simp add: emit_def)

lemma store_call_ok:
  "\<not> store_raises env op \<Longrightarrow> store_call env op c = (emit [StoreCall op] c, Inr ())"
  by (simp add: store_call_def)

lemma store_call_raises:
  "store_raises env op \<Longrightarrow> store_call env op c = (emit [StoreCall op] c, Inl (StoreError op))"
  by (simp add: store_call_def)


subsection \<open>Notification rules\<close>

lemma rules_loop_iff: "rules_loop a t rules = (\<exists>rule \<in> set rules. rule_matches a t rule)"
  by (induction rules) (auto simp: rule_matches_def str_contains_sublist)

lemma rules_loop_append:
  "rules_loop a t (pre @ post) = (rules_loop a t pre \<or> rules_loop a t post)"
  by (induction pre) auto

lemma matches_notification_rules_ok:
  "\<not> store_raises env GetNotificationRules \<Longrightarrow>
   matches_notification_rules env sd c
     = (emit [StoreCall GetNotificationRules] c,
        Inr (rules_loop (lower (sd_artist sd)) (lower (sd_title sd))
               (filter enabled (notification_rules (db_manager c)))))"
  by (simp add: matches_notification_rules_def get_notification_rules_def store_call_ok)

lemma filter_service_map [simp]:
  "filter is_service_call (map (\<lambda>target. ServiceCall target ic sd (f target)) ts)
     = map (\<lambda>target. ServiceCall target ic sd (f target)) ts"
  by (induction ts) auto

lemma check_and_send_service_calls:
  "length (filter is_service_call (trace (fst (check_and_send_notifications env sd ic c))))
     \<le> length (filter is_service_call (trace c))
        + length (notification_targets (read_notification_settings (db_manager c)))"
  by (cases "store_raises env GetNotificationSettings"; cases "store_raises env GetNotificationRules")
     (simp_all add: check_and_send_notifications_def get_notification_settings_def
       matches_notification_rules_def get_notification_rules_def
       store_call_def send_notification_def)

text \<open>
  C9. With the store answering, \<^verbatim>\<open>_matches_notification_rules\<close> reads the enabled rules
  and returns whether one of them applies: an artist rule whose lowered pattern occurs
  in the lowered artist, or a title rule whose lowered pattern occurs in the lowered
  title. Without enabled rules the answer is \<^verbatim>\<open>False\<close>. A \<^verbatim>\<open>position_range\<close> rule
  never applies. The rules are tried in stored order and the first one that applies
  decides: what follows it is not consulted. One evaluation sends at most one
  notification per target, however many rules apply.
\<close>

theorem rule_evaluation:
  "(\<not> store_raises env GetNotificationRules \<longrightarrow>
      matches_notification_rules env sd c
        = (emit [StoreCall GetNotificationRules] c,
           Inr (\<exists>rule \<in> set (notification_rules (db_manager c)).
                  enabled rule \<and> rule_matches (lower (sd_artist sd)) (lower (sd_title sd)) rule)))
   \<and> (\<not> store_raises env GetNotificationRules
        \<and> filter enabled (notification_rules (db_manager c)) = []
      \<longrightarrow> snd (matches_notification_rules env sd c) = Inr False)
   \<and> (rule_type rule = ''position_range'' \<longrightarrow> \<not> rule_matches a t rule)
   \<and> ((\<forall>r \<in> set rules. rule_type r = ''position_range'') \<longrightarrow> \<not> rules_loop a t rules)
   \<and> (\<not> rules_loop a t pre \<and> rule_matches a t rule
      \<longrightarrow> rules_loop a t (pre @ rule # rest) = rules_loop a t (pre @ [rule])
          \<and> rules_loop a t (pre @ rule # rest))
   \<and> length (filter is_service_call (trace (fst (check_and_send_notifications env sd ic c))))
       \<le> length (filter is_service_call (trace c))
          + length (notification_targets (read_notification_settings (db_manager c)))"
proof (intro conjI impI)
  assume ok: "\<not> store_raises env GetNotificationRules"
  have "rules_loop (lower (sd_artist sd)) (lower (sd_title sd))
          (filter enabled (notification_rules (db_manager c)))
        = (\<exists>rule \<in> set (notification_rules (db_manager c)).
             enabled rule \<and> rule_matches (lower (sd_artist sd)) (lower (sd_title sd)) rule)"
    by (auto simp: rules_loop_iff)
  with ok show "matches_notification_rules env sd c
        = (emit [StoreCall GetNotificationRules] c,
           Inr (\<exists>rule \<in> set (notification_rules (db_manager c)).
                  enabled rule \<and> rule_matches (lower (sd_artist sd)) (lower (sd_title sd)) rule))"
    by (simp add: matches_notification_rules_ok)
next
  assume "\<not> store_raises env GetNotificationRules
        \<and> filter enabled (notification_rules (db_manager c)) = []"
  then show "snd (matches_notification_rules env sd c) = Inr False"
    by (simp add: matches_notification_rules_ok)
next
  assume "rule_type rule = ''position_range''"
  then show "\<not> rule_matches a t rule" by (simp add: rule_matches_def)
next
  assume "\<forall>r \<in> set rules. rule_type r = ''position_range''"
  then show "\<not> rules_loop a t rules" by (auto simp: rules_loop_iff rule_matches_def)
next
  assume "\<not> rules_loop a t pre \<and> rule_matches a t rule"
  then show "rules_loop a t (pre @ rule # rest) = rules_loop a t (pre @ [rule])"
    by (simp add: rules_loop_iff)
next
  assume "\<not> rules_loop a t pre \<and> rule_matches a t rule"
  then show "rules_loop a t (pre @ rule # rest)"
    by (simp add: rules_loop_iff)
next
  show "length (filter is_service_call (trace (fst (check_and_send_notifications env sd ic c))))
       \<le> length (filter is_service_call (trace c))
          + length (notification_targets (read_notification_settings (db_manager c)))"
    by (rule check_and_send_service_calls)
qed

theorem rule_evaluation_witness:
  "matches_notification_rules calm (song_dict example_db bohemian) fresh_coordinator
     = (emit [StoreCall GetNotificationRules] fresh_coordinator, Inr True)
   \<and> snd (matches_notification_rules calm (song_dict example_db bohemian)
            (fresh_coordinator\<lparr> db_manager := example_db\<lparr> notification_rules := [] \<rparr> \<rparr>))
       = Inr False
   \<and> \<not> rule_matches ''queen'' ''bohemian rhapsody'' (example_rules ! 0)
   \<and> \<not> rules_loop ''queen'' ''bohemian rhapsody'' [example_rules ! 0]
   \<and> rules_loop ''queen'' ''bohemian rhapsody''
        ([example_rules ! 0] @ example_rules ! 1 # [example_rules ! 2])
   \<and> length (filter is_service_call (trace (fst
        (check_and_send_notifications calm (song_dict example_db bohemian) True
           fresh_coordinator)))) \<le> 2"
proof -
  let ?sd = "song_dict example_db bohemian"
  let ?bare = "fresh_coordinator\<lparr> db_manager := example_db\<lparr> notification_rules := [] \<rparr> \<rparr>"
  note full = rule_evaluation [where env = calm and sd = ?sd and c = fresh_coordinator
      and rule = "example_rules ! 1" and a = "''queen''" and t = "''bohemian rhapsody''"
      and rules = "[example_rules ! 0]" and pre = "[example_rules ! 0]"
      and rest = "[example_rules ! 2]" and ic = True]
  note bare = rule_evaluation [where env = calm and sd = ?sd and c = ?bare
      and rule = "example_rules ! 0" and a = "''queen''" and t = "''bohemian rhapsody''"
      and rules = "[example_rules ! 0]"]
  have quiet: "\<not> store_raises calm GetNotificationRules" by (simp add: calm_def)
  have range0: "rule_type (example_rules ! 0) = ''position_range''"
    by (simp add: example_rules_def)
  have hit: "rule_matches ''queen'' ''bohemian rhapsody'' (example_rules ! 1)"
    by (simp add: rule_matches_def example_rules_def lower_def lower_char_def
        str_contains_sublist [symmetric])
  have found: "\<exists>rule \<in> set (notification_rules (db_manager fresh_coordinator)).
           enabled rule \<and> rule_matches (lower (sd_artist ?sd)) (lower (sd_title ?sd)) rule"
    by (rule bexI [of _ "example_rules ! 1"])
      (simp_all add: fresh_coordinator_def example_db_def example_rules_def song_dict_def
        bohemian_def rule_matches_def lower_def lower_char_def str_contains_sublist [symmetric])
  have no_rules: "filter enabled (notification_rules (db_manager ?bare)) = []"
    by simp
  have targets: "length (notification_targets
        (read_notification_settings (db_manager fresh_coordinator))) = 2"
    by (simp add: fresh_coordinator_def example_db_def read_notification_settings_def
        example_settings_def)
  have before: "filter is_service_call (trace fresh_coordinator) = []"
    by (simp add: fresh_coordinator_def)
  from full quiet found have w1: "matches_notification_rules calm ?sd fresh_coordinator
     = (emit [StoreCall GetNotificationRules] fresh_coordinator, Inr True)"
    by simp
  from bare quiet no_rules have w2: "snd (matches_notification_rules calm ?sd ?bare) = Inr False"
    by blast
  from bare range0 have w3: "\<not> rule_matches ''queen'' ''bohemian rhapsody'' (example_rules ! 0)"
    by blast
  from bare range0 have w4: "\<not> rules_loop ''queen'' ''bohemian rhapsody'' [example_rules ! 0]"
    by simp
  from full w4 hit have w5: "rules_loop ''queen'' ''bohemian rhapsody''
        ([example_rules ! 0] @ example_rules ! 1 # [example_rules ! 2])"
    by blast
  from full targets before have w6: "length (filter is_service_call (trace (fst
        (check_and_send_notifications calm ?sd True fresh_coordinator)))) \<le> 2"
    by simp
  from w1 w2 w3 w4 w5 w6 show ?thesis by blast
qed

subsection \<open>Upcoming songs\<close>






lemma map_position_upcoming_dict:
  "map sd_position (map (upcoming_dict db) rows) = map position rows"
  by (simp add: upcoming_dict_def comp_def)




subsection \<open>The upcoming window\<close>

lemma emit_Nil [simp]: "emit [] c = c"
  by (simp add: emit_def)



lemma get_notification_settings_ok:
  "\<not> store_raises env GetNotificationSettings \<Longrightarrow>
   get_notification_settings env c
     = (emit [StoreCall GetNotificationSettings] c,
        Inr (read_notification_settings (db_manager c)))"
  by (simp add: get_notification_settings_def store_call_ok)





subsection \<open>What the steps leave alone\<close>

lemma keeps_refl [simp]: "keeps c c"
  by (simp add: keeps_def)

lemma keeps_trans: "keeps c c' \<Longrightarrow> keeps c' c'' \<Longrightarrow> keeps c c''"
  by (auto simp: keeps_def)

lemma keeps_emit [simp]: "keeps c (emit evs c)"
  by (simp add: keeps_def)

lemma keeps_db_update [simp]: "keeps c (c\<lparr> db_manager := db \<rparr>)"
  by (simp add: keeps_def)

lemma and_then_keeps:
  assumes "keeps c (fst m)" and "\<And>v. keeps (fst m) (fst (f v (fst m)))"
  shows "keeps c (fst (and_then m f))"
proof (cases m)
  case (Pair c1 r)
  with assms show ?thesis
    by (cases r) (auto intro: keeps_trans)
qed

lemma store_call_keeps: "keeps c (fst (store_call env op c))"
  by (simp add: store_call_def)

lemma update_cover_art_keeps: "keeps c (fst (update_cover_art env sid url mbid c))"
  unfolding update_cover_art_def
  by (rule and_then_keeps) (simp_all add: store_call_keeps)

lemma is_cover_art_cached_keeps: "keeps c (fst (is_cover_art_cached env sid c))"
  unfolding is_cover_art_cached_def
  by (rule and_then_keeps) (simp_all add: store_call_keeps)

lemma update_playlist_state_keeps: "keeps c (fst (update_playlist_state env pos sid md c))"
  unfolding update_playlist_state_def
  by (rule and_then_keeps) (simp_all add: store_call_keeps)

lemma get_notification_settings_keeps: "keeps c (fst (get_notification_settings env c))"
  unfolding get_notification_settings_def
  by (rule and_then_keeps) (simp_all add: store_call_keeps)

lemma get_notification_rules_keeps: "keeps c (fst (get_notification_rules env c))"
  unfolding get_notification_rules_def
  by (rule and_then_keeps) (simp_all add: store_call_keeps)

lemma get_song_by_position_keeps: "keeps c (fst (get_song_by_position env p c))"
  unfolding get_song_by_position_def
  by (rule and_then_keeps) (simp_all add: store_call_keeps)

lemma matches_notification_rules_keeps: "keeps c (fst (matches_notification_rules env sd c))"
  unfolding matches_notification_rules_def
  by (rule and_then_keeps) (simp_all add: get_notification_rules_keeps)

lemma send_notification_keeps: "keeps c (send_notification env sd st ic c)"
  by (simp add: send_notification_def)

lemma get_cover_art_keeps: "keeps c (fst (get_cover_art env a t url cached c))"
  by (simp add: get_cover_art_def search_cover_art_def
      split: option.splits timestamp_value.splits prod.splits)

lemma lookup_cover_art_keeps: "keeps c (fst (lookup_cover_art env sd c))"
  unfolding lookup_cover_art_def
  by (intro and_then_keeps is_cover_art_cached_keeps)
    (auto intro!: and_then_keeps get_cover_art_keeps update_cover_art_keeps
      split: option.splits prod.splits)

lemma fetch_and_cache_cover_art_keeps:
  "keeps c (fst (fetch_and_cache_cover_art env sd url c))"
  unfolding fetch_and_cache_cover_art_def
  by (auto intro!: and_then_keeps update_cover_art_keeps lookup_cover_art_keeps
      split: option.splits)

lemma check_and_send_notifications_keeps:
  "keeps c (fst (check_and_send_notifications env sd ic c))"
  unfolding check_and_send_notifications_def
  by (intro and_then_keeps get_notification_settings_keeps)
    (auto intro!: and_then_keeps matches_notification_rules_keeps send_notification_keeps)

lemma upcoming_loop_keeps: "keeps c (fst (upcoming_loop env st current offsets c))"
proof (induction offsets arbitrary: c)
  case Nil
  show ?case by simp
next
  case (Cons offset offsets)
  show ?case
  proof (cases "current - offset < 1")
    case True
    then show ?thesis by (simp add: Cons.IH)
  next
    case False
    have "keeps c (fst (and_then (get_song_by_position env (current - offset) c)
             (\<lambda>upcoming_song c1.
                case upcoming_song of
                  None \<Rightarrow> upcoming_loop env st current offsets c1
                | Some sd \<Rightarrow>
                    and_then (matches_notification_rules env sd c1)
                      (\<lambda>matches c2.
                         if matches
                         then upcoming_loop env st current offsets
                                (send_notification env sd st False c2)
                         else upcoming_loop env st current offsets c2))))"
    proof (rule and_then_keeps [OF get_song_by_position_keeps])
      fix v
      let ?c1 = "fst (get_song_by_position env (current - offset) c)"
      show "keeps ?c1 (fst (case v of
                  None \<Rightarrow> upcoming_loop env st current offsets ?c1
                | Some sd \<Rightarrow>
                    and_then (matches_notification_rules env sd ?c1)
                      (\<lambda>matches c2.
                         if matches
                         then upcoming_loop env st current offsets
                                (send_notification env sd st False c2)
                         else upcoming_loop env st current offsets c2)))"
      proof (cases v)
        case None
        then show ?thesis by (simp add: Cons.IH)
      next
        case (Some sd)
        have "keeps ?c1 (fst (and_then (matches_notification_rules env sd ?c1)
                      (\<lambda>matches c2.
                         if matches
                         then upcoming_loop env st current offsets
                                (send_notification env sd st False c2)
                         else upcoming_loop env st current offsets c2)))"
          by (rule and_then_keeps [OF matches_notification_rules_keeps])
            (auto intro: keeps_trans [OF send_notification_keeps Cons.IH] Cons.IH)
        with Some show ?thesis by simp
      qed
    qed
    with False show ?thesis by simp
  qed
qed

lemma async_check_upcoming_notifications_keeps:
  "keeps c (fst (async_check_upcoming_notifications env c))"
  unfolding async_check_upcoming_notifications_def
  by (auto intro!: and_then_keeps get_notification_settings_keeps upcoming_loop_keeps
      split: option.splits)

lemma side_effects_keeps: "keeps c (fst (side_effects env md sm c))"
  unfolding side_effects_def
  by (intro and_then_keeps fetch_and_cache_cover_art_keeps update_playlist_state_keeps
      check_and_send_notifications_keeps async_check_upcoming_notifications_keeps) simp

subsection \<open>Cover art\<close>

text \<open>
  A song whose cached cover art has expired makes the cover-art step raise: the store
  says the cache is not valid, the dictionary still carries the URL and the timestamp
  text, and \<^verbatim>\<open>get_cover_art\<close> subtracts that text from a \<^verbatim>\<open>datetime\<close>.
\<close>

lemma lookup_cover_art_expired:
  assumes "\<not> store_raises env (IsCoverArtCached (sd_id sd))"
    and "\<not> cover_art_cached (now env) (db_manager c) (sd_id sd)"
    and "truthy_str (sd_cover_art_url sd)" and "sd_cover_art_cached_at sd = Some at_text"
  shows "lookup_cover_art env sd c
     = (emit [StoreCall (IsCoverArtCached (sd_id sd))] c, Inl TypeError)"
  using assms
  by (simp add: lookup_cover_art_def is_cover_art_cached_def store_call_def get_cover_art_def)

subsection \<open>The tick\<close>

lemma fetch_metadata_frame:
  assumes "fetch_metadata env c = (c0, r)"
  shows "last_song_id c0 = last_song_id c \<and> data c0 = data c \<and> db_manager c0 = db_manager c
    \<and> (\<exists>asked. trace c0 = trace c @ map Upstream asked)"
  using assms by (auto simp: fetch_metadata_def split: prod.splits)

lemma match_step_ok:
  "\<not> store_raises env (MatchSong a t) \<Longrightarrow>
   match_step pr env a t c = (emit [StoreCall (MatchSong a t)] c, Inr (match_song pr (db_manager c) a t))"
  by (simp add: match_step_def store_call_ok)

lemma update_body_same_song:
  assumes "fetch_metadata env c = (c0, Some md)"
    and "\<not> store_raises env (MatchSong (md_artist md) (md_title md))"
    and "match_song pr (db_manager c) (md_artist md) (md_title md) = Some sm"
    and "last_song_id c = Some (sd_id sm)"
  shows "update_body pr env c
      = (emit [StoreCall (MatchSong (md_artist md) (md_title md))] c0,
         Inr \<lparr> current_song = Some sm, song_changed = False, error = None,
               raw_metadata = None, npo_metadata = Some md \<rparr>)"
  using assms fetch_metadata_frame [OF assms(1)]
  by (simp add: update_body_def match_step_ok)

lemma update_body_transition:
  assumes "fetch_metadata env c = (c0, Some md)"
    and "\<not> store_raises env (MatchSong (md_artist md) (md_title md))"
    and "match_song pr (db_manager c) (md_artist md) (md_title md) = Some sm"
    and "last_song_id c \<noteq> Some (sd_id sm)"
  shows "update_body pr env c
      = and_then
          (side_effects env md sm
             ((emit [StoreCall (MatchSong (md_artist md) (md_title md))] c0)
                \<lparr> last_song_id := Some (sd_id sm) \<rparr>))
          (\<lambda>sd c2. (c2, Inr \<lparr> current_song = Some sd, song_changed = True, error = None,
                             raw_metadata = None, npo_metadata = Some md \<rparr>))"
  using assms fetch_metadata_frame [OF assms(1)]
  by (auto simp: update_body_def match_step_ok)

lemma tick_same_song:
  assumes "fetch_metadata env c = (c0, Some md)"
    and "\<not> store_raises env (MatchSong (md_artist md) (md_title md))"
    and "match_song pr (db_manager c) (md_artist md) (md_title md) = Some sm"
    and "last_song_id c = Some (sd_id sm)"
  shows "\<exists>c' asked. async_update_data pr env c
      = (c', Inr \<lparr> current_song = Some sm, song_changed = False, error = None,
                   raw_metadata = None, npo_metadata = Some md \<rparr>)
    \<and> last_song_id c' = last_song_id c \<and> data c' = data c \<and> db_manager c' = db_manager c
    \<and> trace c' = trace c @ map Upstream asked
                   @ [StoreCall (MatchSong (md_artist md) (md_title md))]"
proof -
  from fetch_metadata_frame [OF assms(1)] obtain asked where
    frame: "last_song_id c0 = last_song_id c" "data c0 = data c" "db_manager c0 = db_manager c"
      "trace c0 = trace c @ map Upstream asked"
    by blast
  let ?c' = "emit [StoreCall (MatchSong (md_artist md) (md_title md))] c0"
  have "async_update_data pr env c
      = (?c', Inr \<lparr> current_song = Some sm, song_changed = False, error = None,
                   raw_metadata = None, npo_metadata = Some md \<rparr>)"
    by (simp add: async_update_data_def update_body_same_song [OF assms])
  moreover from frame have "last_song_id ?c' = last_song_id c \<and> data ?c' = data c
      \<and> db_manager ?c' = db_manager c
      \<and> trace ?c' = trace c @ map Upstream asked
                   @ [StoreCall (MatchSong (md_artist md) (md_title md))]"
    by simp
  ultimately show ?thesis by blast
qed

text \<open>
  C2. When the client yields an observation, the match call does not raise, and the
  matched song has the id the coordinator already tracks, the tick returns that song with
  \<^verbatim>\<open>song_changed = False\<close>; the tracked id, \<^verbatim>\<open>data\<close> and the store are unchanged, and
  the only effects of the tick are the client's requests and the match call: no cover-art
  call, no write of the playlist state, no notification call.
\<close>

theorem same_song_tick_is_noop:
  assumes "fetch_metadata env c = (c0, Some md)"
    and "\<not> store_raises env (MatchSong (md_artist md) (md_title md))"
    and "match_song pr (db_manager c) (md_artist md) (md_title md) = Some sm"
    and "last_song_id c = Some (sd_id sm)"
  shows "\<exists>c' asked. async_update_data pr env c
      = (c', Inr \<lparr> current_song = Some sm, song_changed = False, error = None,
                   raw_metadata = None, npo_metadata = Some md \<rparr>)
    \<and> last_song_id c' = last_song_id c \<and> data c' = data c \<and> db_manager c' = db_manager c
    \<and> trace c' = trace c @ map Upstream asked
                   @ [StoreCall (MatchSong (md_artist md) (md_title md))]"
  using assms by (rule tick_same_song)

lemma and_then_Inl:
  "and_then m f = (c', Inl e) \<Longrightarrow>
     m = (c', Inl e) \<or> (\<exists>c1 v. m = (c1, Inr v) \<and> f v c1 = (c', Inl e))"
  by (cases m; cases "snd m") auto

text \<open>
  C10. On a transition the tracked id is assigned before the side effects run. So when a
  tick that resolved a new song is reported as failed, the new id is tracked all the same,
  and every later tick that resolves a song with that id, in whatever environment, is a
  tick without side effects: the effects the failed tick skipped are not made up for.
\<close>

theorem failed_transition_is_not_retried:
  assumes "fetch_metadata env c = (c0, Some md)"
    and "\<not> store_raises env (MatchSong (md_artist md) (md_title md))"
    and "match_song pr (db_manager c) (md_artist md) (md_title md) = Some sm"
    and "last_song_id c \<noteq> Some (sd_id sm)"
    and failed: "async_update_data pr env c = (c', Inl failure)"
  shows "last_song_id c' = Some (sd_id sm)
    \<and> (\<forall>env' c0' md' sm'.
          fetch_metadata env' c' = (c0', Some md')
          \<and> \<not> store_raises env' (MatchSong (md_artist md') (md_title md'))
          \<and> match_song pr (db_manager c') (md_artist md') (md_title md') = Some sm'
          \<and> sd_id sm' = sd_id sm
        \<longrightarrow> (\<exists>c'' asked. async_update_data pr env' c'
              = (c'', Inr \<lparr> current_song = Some sm', song_changed = False, error = None,
                            raw_metadata = None, npo_metadata = Some md' \<rparr>)
            \<and> last_song_id c'' = Some (sd_id sm) \<and> db_manager c'' = db_manager c'
            \<and> trace c'' = trace c' @ map Upstream asked
                   @ [StoreCall (MatchSong (md_artist md') (md_title md'))]))"
proof -
  let ?c1 = "(emit [StoreCall (MatchSong (md_artist md) (md_title md))] c0)
                \<lparr> last_song_id := Some (sd_id sm) \<rparr>"
  let ?m = "side_effects env md sm ?c1"
  from failed obtain e where body: "update_body pr env c = (c', Inl e)"
    by (auto simp: async_update_data_def split: prod.splits sum.splits)
  then have "and_then ?m
          (\<lambda>sd c2. (c2, Inr \<lparr> current_song = Some sd, song_changed = True, error = None,
                             raw_metadata = None, npo_metadata = Some md \<rparr>)) = (c', Inl e)"
    by (simp add: update_body_transition [OF assms(1-4)])
  then have "?m = (c', Inl e)"
    by (auto dest: and_then_Inl)
  then have "c' = fst ?m" by simp
  with side_effects_keeps [of ?c1 env md sm] have tracked: "last_song_id c' = Some (sd_id sm)"
    by (simp add: keeps_def)
  show ?thesis
  proof (intro conjI allI impI)
    show "last_song_id c' = Some (sd_id sm)" by (rule tracked)
  next
    fix env' c0' md' sm'
    assume again: "fetch_metadata env' c' = (c0', Some md')
          \<and> \<not> store_raises env' (MatchSong (md_artist md') (md_title md'))
          \<and> match_song pr (db_manager c') (md_artist md') (md_title md') = Some sm'
          \<and> sd_id sm' = sd_id sm"
    with tracked have same: "last_song_id c' = Some (sd_id sm')" by simp
    from again same
    have "\<exists>c'' asked. async_update_data pr env' c'
        = (c'', Inr \<lparr> current_song = Some sm', song_changed = False, error = None,
                      raw_metadata = None, npo_metadata = Some md' \<rparr>)
      \<and> last_song_id c'' = last_song_id c' \<and> data c'' = data c'
      \<and> db_manager c'' = db_manager c'
      \<and> trace c'' = trace c' @ map Upstream asked
                   @ [StoreCall (MatchSong (md_artist md') (md_title md'))]"
      by (intro tick_same_song) simp_all
    with tracked show "\<exists>c'' asked. async_update_data pr env' c'
              = (c'', Inr \<lparr> current_song = Some sm', song_changed = False, error = None,
                            raw_metadata = None, npo_metadata = Some md' \<rparr>)
            \<and> last_song_id c'' = Some (sd_id sm) \<and> db_manager c'' = db_manager c'
            \<and> trace c'' = trace c' @ map Upstream asked
                   @ [StoreCall (MatchSong (md_artist md') (md_title md'))]"
      by auto
  qed
qed

text \<open>
  C1, amended. On a transition the four side effects run in the fixed order (cover art,
  playlist state, notification for the current song, upcoming window), each from the
  state the one before left. The first one that raises ends the tick: the tick is
  reported as failed with what was raised, and its final state is the one the failing
  step left, so later steps are not attempted and earlier effects stay. Only when all
  four return does the tick return the song with \<^verbatim>\<open>song_changed = True\<close>. In every case
  the tracked id assigned at the start stays and the record of effects only grows.
\<close>

theorem transition_steps_until_first_failure:
  assumes "fetch_metadata env c = (c0, Some md)"
    and "\<not> store_raises env (MatchSong (md_artist md) (md_title md))"
    and "match_song pr (db_manager c) (md_artist md) (md_title md) = Some sm"
    and "last_song_id c \<noteq> Some (sd_id sm)"
  shows "let c1 = (emit [StoreCall (MatchSong (md_artist md) (md_title md))] c0)
                    \<lparr> last_song_id := Some (sd_id sm) \<rparr> in
    (\<forall>c2 e. fetch_and_cache_cover_art env sm (md_cover_art_url md) c1 = (c2, Inl e)
        \<longrightarrow> async_update_data pr env c = (c2, Inl (UpdateFailed e)))
    \<and> (\<forall>c2 sd. fetch_and_cache_cover_art env sm (md_cover_art_url md) c1 = (c2, Inr sd) \<longrightarrow>
        (\<forall>c3 e. update_playlist_state env (sd_position sd) (sd_id sd) md c2 = (c3, Inl e)
            \<longrightarrow> async_update_data pr env c = (c3, Inl (UpdateFailed e)))
        \<and> (\<forall>c3. update_playlist_state env (sd_position sd) (sd_id sd) md c2 = (c3, Inr ()) \<longrightarrow>
            (\<forall>c4 e. check_and_send_notifications env sd True c3 = (c4, Inl e)
                \<longrightarrow> async_update_data pr env c = (c4, Inl (UpdateFailed e)))
            \<and> (\<forall>c4. check_and_send_notifications env sd True c3 = (c4, Inr ()) \<longrightarrow>
                (\<forall>c5 e. async_check_upcoming_notifications env c4 = (c5, Inl e)
                    \<longrightarrow> async_update_data pr env c = (c5, Inl (UpdateFailed e)))
                \<and> (\<forall>c5. async_check_upcoming_notifications env c4 = (c5, Inr ())
                    \<longrightarrow> async_update_data pr env c
                        = (c5, Inr \<lparr> current_song = Some sd, song_changed = True,
                                     error = None, raw_metadata = None,
                                     npo_metadata = Some md \<rparr>)))))
    \<and> (\<forall>c' r. async_update_data pr env c = (c', r) \<longrightarrow> keeps c1 c')"
proof -
  let ?c1 = "(emit [StoreCall (MatchSong (md_artist md) (md_title md))] c0)
                    \<lparr> last_song_id := Some (sd_id sm) \<rparr>"
  note body = update_body_transition [OF assms]
  have kept: "keeps ?c1 c'" if "async_update_data pr env c = (c', r)" for c' r
  proof -
    have "fst (async_update_data pr env c) = fst (update_body pr env c)"
      by (simp add: async_update_data_def split: prod.splits sum.splits)
    also have "\<dots> = fst (side_effects env md sm ?c1)"
      unfolding body by (cases "side_effects env md sm ?c1"; cases "snd (side_effects env md sm ?c1)") auto
    finally have "c' = fst (side_effects env md sm ?c1)" using that by simp
    then show ?thesis by (simp add: side_effects_keeps)
  qed
  have steps: "(\<forall>c2 e. fetch_and_cache_cover_art env sm (md_cover_art_url md) ?c1 = (c2, Inl e)
        \<longrightarrow> async_update_data pr env c = (c2, Inl (UpdateFailed e)))
    \<and> (\<forall>c2 sd. fetch_and_cache_cover_art env sm (md_cover_art_url md) ?c1 = (c2, Inr sd) \<longrightarrow>
        (\<forall>c3 e. update_playlist_state env (sd_position sd) (sd_id sd) md c2 = (c3, Inl e)
            \<longrightarrow> async_update_data pr env c = (c3, Inl (UpdateFailed e)))
        \<and> (\<forall>c3. update_playlist_state env (sd_position sd) (sd_id sd) md c2 = (c3, Inr ()) \<longrightarrow>
            (\<forall>c4 e. check_and_send_notifications env sd True c3 = (c4, Inl e)
                \<longrightarrow> async_update_data pr env c = (c4, Inl (UpdateFailed e)))
            \<and> (\<forall>c4. check_and_send_notifications env sd True c3 = (c4, Inr ()) \<longrightarrow>
                (\<forall>c5 e. async_check_upcoming_notifications env c4 = (c5, Inl e)
                    \<longrightarrow> async_update_data pr env c = (c5, Inl (UpdateFailed e)))
                \<and> (\<forall>c5. async_check_upcoming_notifications env c4 = (c5, Inr ())
                    \<longrightarrow> async_update_data pr env c
                        = (c5, Inr \<lparr> current_song = Some sd, song_changed = True,
                                     error = None, raw_metadata = None,
                                     npo_metadata = Some md \<rparr>)))))"
    by (simp add: async_update_data_def body side_effects_def)
  from steps kept show ?thesis unfolding Let_def by blast
qed

subsection \<open>Two ticks on the example catalog\<close>

lemma bohemian_dict:
  "sd_id (song_dict example_db bohemian) = 1"
  "sd_position (song_dict example_db bohemian) = 499"
  "sd_artist (song_dict example_db bohemian) = ''Queen''"
  "sd_title (song_dict example_db bohemian) = ''Bohemian Rhapsody''"
  "sd_cover_art_url (song_dict example_db bohemian) = None"
  "sd_cover_art_cached_at (song_dict example_db bohemian) = None"
  by (simp_all add: song_dict_def bohemian_def)

lemma match_queen:
  "match_song containment_ratio example_db ''Queen'' ''Bohemian Rhapsody (Remastered)''
     = Some (song_dict example_db bohemian)"
  by (simp add: ex)

lemma queen_not_cached:
  "songs db = songs example_db \<Longrightarrow> cover_art_cached t db 1 = False"
  by (simp add: cover_art_cached_def example_db_def bohemian_def)

lemma queen_rule_applies:
  "rules_loop (lower ''Queen'') (lower ''Bohemian Rhapsody'') (filter enabled example_rules)"
  by (simp add: example_rules_def lower_def lower_char_def)

lemma example_targets:
  assumes "notification_settings db = Some example_settings"
  shows "notification_targets (read_notification_settings db)
     = [''persistent_notification'', ''notify.phone'']"
    and "notify_current_song (read_notification_settings db)"
  using assms by (simp_all add: read_notification_settings_def example_settings_def)

lemma calm_fields:
  "now calm = 1000000000" "sources calm = website_down" "\<not> store_raises calm op"
  "search_musicbrainz calm a t = (None, None)" "\<not> service_raises calm target"
  by (simp_all add: calm_def)

lemma write_fails_fields:
  "now write_fails = 1000000000" "sources write_fails = website_down"
  "store_raises write_fails op = is_playlist_write op"
  "search_musicbrainz write_fails a t = (None, None)" "\<not> service_raises write_fails target"
  by (simp_all add: write_fails_def calm_def)

lemma fetch_queen:
  assumes "now env = 1000000000" "sources env = website_down"
  shows "fetch_metadata env fresh_coordinator = (queen_fetched, Some queen_observation)"
  using assms
  by (simp add: fetch_metadata_def get_current_metadata_def cache_hit_def fetch_chain_def
      cache_metadata_def website_down_def fresh_coordinator_def empty_client_def
      queen_fetched_def)

lemma queen_tracked_fields:
  "db_manager queen_tracked = example_db" "data queen_tracked = None"
  "last_song_id queen_tracked = Some 1"
  "trace queen_tracked = [Upstream NPOWebsite, Upstream Icecast,
      StoreCall (MatchSong ''Queen'' ''Bohemian Rhapsody (Remastered)'')]"
  "npo_client queen_tracked
     = \<lparr> last_fetch = Some 1000000000, cached_metadata = Some queen_observation \<rparr>"
  by (simp_all add: queen_tracked_def queen_fetched_def fresh_coordinator_def)

lemma cover_art_step_queen:
  assumes "db_manager c = example_db\<lparr> playlist_state := ps \<rparr>"
    and "\<not> store_raises env (IsCoverArtCached 1)"
    and "search_musicbrainz env ''Queen'' ''Bohemian Rhapsody'' = (None, None)"
  shows "fetch_and_cache_cover_art env (song_dict example_db bohemian) None c
     = (emit [StoreCall (IsCoverArtCached 1), MusicBrainzSearch ''Queen'' ''Bohemian Rhapsody''] c,
        Inr (song_dict example_db bohemian))"
proof -
  from assms(1) have "songs (db_manager c) = songs example_db" by simp
  with assms(2,3) show ?thesis
    by (simp add: fetch_and_cache_cover_art_def lookup_cover_art_def is_cover_art_cached_def
        store_call_def get_cover_art_def search_cover_art_def bohemian_dict queen_not_cached)
qed

lemma playlist_write_raises:
  assumes "store_raises env (UpdatePlaylistState pos sid md)"
  shows "update_playlist_state env pos sid md c
     = (emit [StoreCall (UpdatePlaylistState pos sid md)] c,
        Inl (StoreError (UpdatePlaylistState pos sid md)))"
  using assms by (simp add: update_playlist_state_def store_call_def)

lemma playlist_write_ok:
  assumes "\<not> store_raises env (UpdatePlaylistState pos sid md)"
  shows "update_playlist_state env pos sid md c
     = ((emit [StoreCall (UpdatePlaylistState pos sid md)] c)
          \<lparr> db_manager := (db_manager c)\<lparr> playlist_state :=
               Some \<lparr> current_position = pos, current_song_id = sid,
                      detected_at = now env, npo_metadata_json = md \<rparr> \<rparr> \<rparr>,
        Inr ())"
  using assms by (simp add: update_playlist_state_def store_call_def)

lemma notify_queen:
  assumes "db_manager c = example_db\<lparr> playlist_state := ps \<rparr>"
    and "\<forall>op. \<not> store_raises env op" and "\<forall>target. \<not> service_raises env target"
  shows "check_and_send_notifications env (song_dict example_db bohemian) True c
     = (emit [StoreCall GetNotificationSettings, StoreCall GetNotificationRules,
              ServiceCall ''persistent_notification'' True (song_dict example_db bohemian) True,
              ServiceCall ''notify.phone'' True (song_dict example_db bohemian) True] c,
        Inr ())"
proof -
  from assms(1) have db: "notification_rules (db_manager c) = example_rules"
      "notification_settings (db_manager c) = Some example_settings"
    by (simp_all add: example_db_def)
  with assms(2,3) show ?thesis
    by (simp add: check_and_send_notifications_def get_notification_settings_ok
        matches_notification_rules_ok send_notification_def bohemian_dict queen_rule_applies
        example_targets)
qed

lemma no_data_no_upcoming:
  "data c = None \<Longrightarrow> async_check_upcoming_notifications env c = (c, Inr ())"
  by (simp add: async_check_upcoming_notifications_def)

lemma queen_match:
  "match_song containment_ratio (db_manager fresh_coordinator)
     (md_artist queen_observation) (md_title queen_observation)
   = Some (song_dict example_db bohemian)"
  by (simp add: fresh_coordinator_def queen_observation_def match_queen)

lemma queen_is_new:
  "last_song_id fresh_coordinator \<noteq> Some (sd_id (song_dict example_db bohemian))"
  by (simp add: fresh_coordinator_def)

lemma queen_match_answers:
  "\<not> store_raises calm (MatchSong (md_artist queen_observation) (md_title queen_observation))"
  "\<not> store_raises write_fails
       (MatchSong (md_artist queen_observation) (md_title queen_observation))"
  by (simp_all add: calm_fields write_fails_fields)

lemma queen_tracked_eq:
  "(emit [StoreCall (MatchSong (md_artist queen_observation) (md_title queen_observation))]
      queen_fetched)\<lparr> last_song_id := Some (sd_id (song_dict example_db bohemian)) \<rparr>
   = queen_tracked"
  by (simp add: queen_observation_def bohemian_dict queen_tracked_def)

lemma fetch_queen_calm:
  "fetch_metadata calm fresh_coordinator = (queen_fetched, Some queen_observation)"
  by (rule fetch_queen) (simp_all add: calm_fields)

lemma fetch_queen_write_fails:
  "fetch_metadata write_fails fresh_coordinator = (queen_fetched, Some queen_observation)"
  by (rule fetch_queen) (simp_all add: write_fails_fields)

lemma side_effects_write_fails:
  "side_effects write_fails queen_observation (song_dict example_db bohemian) queen_tracked
     = (after_failed_write, Inl (StoreError (UpdatePlaylistState 499 1 queen_observation)))"
proof -
  have db: "db_manager queen_tracked = example_db\<lparr> playlist_state := None \<rparr>"
    by (simp add: queen_tracked_fields example_db_def)
  have url: "md_cover_art_url queen_observation = None"
    by (simp add: queen_observation_def)
  show ?thesis
    by (simp add: side_effects_def url cover_art_step_queen [OF db] write_fails_fields
        playlist_write_raises bohemian_dict after_failed_write_def)
qed

lemma tick_write_fails:
  "async_update_data containment_ratio write_fails fresh_coordinator
     = (after_failed_write,
        Inl (UpdateFailed (StoreError (UpdatePlaylistState 499 1 queen_observation))))"
  by (simp add: async_update_data_def
      update_body_transition [OF fetch_queen_write_fails queen_match_answers(2) queen_match
        queen_is_new]
      queen_tracked_eq side_effects_write_fails)

lemma queen_steps:
  shows cover_step: "\<And>env. \<not> store_raises env (IsCoverArtCached 1) \<Longrightarrow>
        search_musicbrainz env ''Queen'' ''Bohemian Rhapsody'' = (None, None) \<Longrightarrow>
        fetch_and_cache_cover_art env (song_dict example_db bohemian)
          (md_cover_art_url queen_observation) queen_tracked
        = (queen_cover_checked, Inr (song_dict example_db bohemian))"
    and write_step: "update_playlist_state calm (sd_position (song_dict example_db bohemian))
          (sd_id (song_dict example_db bohemian)) queen_observation queen_cover_checked
        = (queen_persisted, Inr ())"
    and failed_write_step: "update_playlist_state write_fails
          (sd_position (song_dict example_db bohemian))
          (sd_id (song_dict example_db bohemian)) queen_observation queen_cover_checked
        = (after_failed_write, Inl (StoreError (UpdatePlaylistState 499 1 queen_observation)))"
    and notify_step: "check_and_send_notifications calm (song_dict example_db bohemian) True
          queen_persisted = (queen_notified, Inr ())"
    and upcoming_step: "async_check_upcoming_notifications calm queen_notified
        = (queen_notified, Inr ())"
proof -
  have db: "db_manager queen_tracked = example_db\<lparr> playlist_state := None \<rparr>"
    by (simp add: queen_tracked_fields example_db_def)
  have url: "md_cover_art_url queen_observation = None"
    by (simp add: queen_observation_def)
  show "fetch_and_cache_cover_art env (song_dict example_db bohemian)
          (md_cover_art_url queen_observation) queen_tracked
        = (queen_cover_checked, Inr (song_dict example_db bohemian))"
    if "\<not> store_raises env (IsCoverArtCached 1)"
      "search_musicbrainz env ''Queen'' ''Bohemian Rhapsody'' = (None, None)" for env
    using cover_art_step_queen [OF db that] by (simp add: url queen_cover_checked_def)
  show "update_playlist_state calm (sd_position (song_dict example_db bohemian))
          (sd_id (song_dict example_db bohemian)) queen_observation queen_cover_checked
        = (queen_persisted, Inr ())"
    by (simp add: playlist_write_ok calm_fields bohemian_dict queen_persisted_def
        queen_cover_checked_def queen_tracked_fields)
  show "update_playlist_state write_fails (sd_position (song_dict example_db bohemian))
          (sd_id (song_dict example_db bohemian)) queen_observation queen_cover_checked
        = (after_failed_write, Inl (StoreError (UpdatePlaylistState 499 1 queen_observation)))"
    by (simp add: playlist_write_raises write_fails_fields bohemian_dict
        after_failed_write_def queen_cover_checked_def)
  have "db_manager queen_persisted = example_db\<lparr> playlist_state :=
            Some \<lparr> current_position = 499, current_song_id = 1, detected_at = 1000000000,
                   npo_metadata_json = queen_observation \<rparr> \<rparr>"
    by (simp add: queen_persisted_def)
  then show "check_and_send_notifications calm (song_dict example_db bohemian) True
          queen_persisted = (queen_notified, Inr ())"
    by (simp add: notify_queen calm_fields queen_notified_def)
  have "data queen_notified = None"
    by (simp add: queen_notified_def queen_persisted_def queen_cover_checked_def
        queen_tracked_fields)
  then show "async_check_upcoming_notifications calm queen_notified = (queen_notified, Inr ())"
    by (rule no_data_no_upcoming)
qed

lemma tick_calm:
  "async_update_data containment_ratio calm fresh_coordinator
     = (queen_notified,
        Inr \<lparr> current_song = Some (song_dict example_db bohemian), song_changed = True,
              error = None, raw_metadata = None, npo_metadata = Some queen_observation \<rparr>)"
  by (simp add: async_update_data_def
      update_body_transition [OF fetch_queen_calm queen_match_answers(1) queen_match
        queen_is_new]
      queen_tracked_eq side_effects_def cover_step calm_fields write_step notify_step
      upcoming_step)

lemma example_traces:
  "trace after_failed_write
     = [Upstream NPOWebsite, Upstream Icecast,
        StoreCall (MatchSong ''Queen'' ''Bohemian Rhapsody (Remastered)''),
        StoreCall (IsCoverArtCached 1), MusicBrainzSearch ''Queen'' ''Bohemian Rhapsody'',
        StoreCall (UpdatePlaylistState 499 1 queen_observation)]"
  "trace queen_notified
     = [Upstream NPOWebsite, Upstream Icecast,
        StoreCall (MatchSong ''Queen'' ''Bohemian Rhapsody (Remastered)''),
        StoreCall (IsCoverArtCached 1), MusicBrainzSearch ''Queen'' ''Bohemian Rhapsody'',
        StoreCall (UpdatePlaylistState 499 1 queen_observation),
        StoreCall GetNotificationSettings, StoreCall GetNotificationRules,
        ServiceCall ''persistent_notification'' True (song_dict example_db bohemian) True,
        ServiceCall ''notify.phone'' True (song_dict example_db bohemian) True]"
  by (simp_all add: after_failed_write_def queen_notified_def queen_persisted_def
      queen_cover_checked_def queen_tracked_fields)

text \<open>
  C1, as stated, fails: when the write of the playlist state raises, the tick is reported
  as failed and ends with that write; the settings and rules are never read and no
  notification is sent, although the same tick sends two when the write succeeds.
\<close>

theorem failing_step_stops_later_steps_counterexample:
  "snd (async_update_data containment_ratio write_fails fresh_coordinator)
     = Inl (UpdateFailed (StoreError (UpdatePlaylistState 499 1 queen_observation)))
   \<and> trace (fst (async_update_data containment_ratio write_fails fresh_coordinator))
     = [Upstream NPOWebsite, Upstream Icecast,
        StoreCall (MatchSong ''Queen'' ''Bohemian Rhapsody (Remastered)''),
        StoreCall (IsCoverArtCached 1), MusicBrainzSearch ''Queen'' ''Bohemian Rhapsody'',
        StoreCall (UpdatePlaylistState 499 1 queen_observation)]
   \<and> trace (fst (async_update_data containment_ratio calm fresh_coordinator))
     = [Upstream NPOWebsite, Upstream Icecast,
        StoreCall (MatchSong ''Queen'' ''Bohemian Rhapsody (Remastered)''),
        StoreCall (IsCoverArtCached 1), MusicBrainzSearch ''Queen'' ''Bohemian Rhapsody'',
        StoreCall (UpdatePlaylistState 499 1 queen_observation),
        StoreCall GetNotificationSettings, StoreCall GetNotificationRules,
        ServiceCall ''persistent_notification'' True (song_dict example_db bohemian) True,
        ServiceCall ''notify.phone'' True (song_dict example_db bohemian) True]"
  by (simp add: tick_write_fails tick_calm example_traces)

theorem transition_steps_until_first_failure_witness:
  "async_update_data containment_ratio write_fails fresh_coordinator
     = (after_failed_write,
        Inl (UpdateFailed (StoreError (UpdatePlaylistState 499 1 queen_observation))))
   \<and> async_update_data containment_ratio calm fresh_coordinator
     = (queen_notified,
        Inr \<lparr> current_song = Some (song_dict example_db bohemian), song_changed = True,
              error = None, raw_metadata = None, npo_metadata = Some queen_observation \<rparr>)
   \<and> keeps queen_tracked after_failed_write \<and> keeps queen_tracked queen_notified"
proof -
  note stopped = transition_steps_until_first_failure
    [OF fetch_queen_write_fails queen_match_answers(2) queen_match queen_is_new,
      unfolded Let_def queen_tracked_eq]
  note ran = transition_steps_until_first_failure
    [OF fetch_queen_calm queen_match_answers(1) queen_match queen_is_new,
      unfolded Let_def queen_tracked_eq]
  have c1: "fetch_and_cache_cover_art write_fails (song_dict example_db bohemian)
          (md_cover_art_url queen_observation) queen_tracked
        = (queen_cover_checked, Inr (song_dict example_db bohemian))"
    by (rule cover_step) (simp_all add: write_fails_fields)
  have c2: "fetch_and_cache_cover_art calm (song_dict example_db bohemian)
          (md_cover_art_url queen_observation) queen_tracked
        = (queen_cover_checked, Inr (song_dict example_db bohemian))"
    by (rule cover_step) (simp_all add: calm_fields)
  from stopped c1 failed_write_step
  have w1: "async_update_data containment_ratio write_fails fresh_coordinator
     = (after_failed_write,
        Inl (UpdateFailed (StoreError (UpdatePlaylistState 499 1 queen_observation))))"
    by blast
  from ran c2 write_step notify_step upcoming_step
  have w2: "async_update_data containment_ratio calm fresh_coordinator
     = (queen_notified,
        Inr \<lparr> current_song = Some (song_dict example_db bohemian), song_changed = True,
              error = None, raw_metadata = None, npo_metadata = Some queen_observation \<rparr>)"
    by blast
  from stopped w1 have w3: "keeps queen_tracked after_failed_write" by blast
  from ran w2 have w4: "keeps queen_tracked queen_notified" by blast
  from w1 w2 w3 w4 show ?thesis by blast
qed

lemma refetch_queen:
  "fetch_metadata calm tracking_queen = (queen_refetched, Some queen_observation)"
  by (simp add: fetch_metadata_def get_current_metadata_def cache_hit_def fetch_chain_def
      cache_metadata_def website_down_def tracking_queen_def empty_client_def
      queen_refetched_def calm_fields)

lemma queen_match_again:
  "match_song containment_ratio (db_manager tracking_queen)
     (md_artist queen_observation) (md_title queen_observation)
   = Some (song_dict example_db bohemian)"
  "last_song_id tracking_queen = Some (sd_id (song_dict example_db bohemian))"
  by (simp_all add: tracking_queen_def queen_observation_def match_queen bohemian_dict)

theorem same_song_tick_is_noop_witness:
  "fetch_metadata calm tracking_queen = (queen_refetched, Some queen_observation)
   \<and> \<not> store_raises calm (MatchSong (md_artist queen_observation) (md_title queen_observation))
   \<and> match_song containment_ratio (db_manager tracking_queen)
        (md_artist queen_observation) (md_title queen_observation)
      = Some (song_dict example_db bohemian)
   \<and> last_song_id tracking_queen = Some (sd_id (song_dict example_db bohemian))
   \<and> (\<exists>c' asked. async_update_data containment_ratio calm tracking_queen
         = (c', Inr \<lparr> current_song = Some (song_dict example_db bohemian),
                      song_changed = False, error = None, raw_metadata = None,
                      npo_metadata = Some queen_observation \<rparr>)
       \<and> last_song_id c' = last_song_id tracking_queen \<and> data c' = data tracking_queen
       \<and> db_manager c' = db_manager tracking_queen
       \<and> trace c' = trace tracking_queen @ map Upstream asked
            @ [StoreCall (MatchSong (md_artist queen_observation) (md_title queen_observation))])"
  using same_song_tick_is_noop [OF refetch_queen queen_match_answers(1) queen_match_again]
    refetch_queen queen_match_answers(1) queen_match_again
  by blast

lemma after_failed_write_fields:
  "last_song_id after_failed_write = Some 1"
  "db_manager after_failed_write = example_db"
  "npo_client after_failed_write
     = \<lparr> last_fetch = Some 1000000000, cached_metadata = Some queen_observation \<rparr>"
  by (simp_all add: after_failed_write_def queen_tracked_fields)

lemma fetch_after_failed_write:
  "fetch_metadata calm after_failed_write = (after_failed_write, Some queen_observation)"
  by (simp add: fetch_metadata_def get_current_metadata_def cache_hit_def cache_duration_def
      after_failed_write_fields calm_fields)

lemma match_after_failed_write:
  "match_song containment_ratio (db_manager after_failed_write)
     (md_artist queen_observation) (md_title queen_observation)
   = Some (song_dict example_db bohemian)"
  by (simp add: after_failed_write_fields queen_observation_def match_queen)

theorem failed_transition_is_not_retried_witness:
  "fetch_metadata write_fails fresh_coordinator = (queen_fetched, Some queen_observation)
   \<and> last_song_id fresh_coordinator \<noteq> Some (sd_id (song_dict example_db bohemian))
   \<and> async_update_data containment_ratio write_fails fresh_coordinator
       = (after_failed_write,
          Inl (UpdateFailed (StoreError (UpdatePlaylistState 499 1 queen_observation))))
   \<and> last_song_id after_failed_write = Some (sd_id (song_dict example_db bohemian))
   \<and> (\<exists>c'' asked. async_update_data containment_ratio calm after_failed_write
         = (c'', Inr \<lparr> current_song = Some (song_dict example_db bohemian),
                       song_changed = False, error = None, raw_metadata = None,
                       npo_metadata = Some queen_observation \<rparr>)
       \<and> last_song_id c'' = Some (sd_id (song_dict example_db bohemian))
       \<and> db_manager c'' = db_manager after_failed_write
       \<and> trace c'' = trace after_failed_write @ map Upstream asked
            @ [StoreCall (MatchSong (md_artist queen_observation) (md_title queen_observation))])"
proof -
  note T = failed_transition_is_not_retried
    [OF fetch_queen_write_fails queen_match_answers(2) queen_match queen_is_new tick_write_fails]
  from T have tracked: "last_song_id after_failed_write
      = Some (sd_id (song_dict example_db bohemian))"
    by blast
  from T [THEN conjunct2, rule_format, of calm after_failed_write queen_observation
      "song_dict example_db bohemian"]
    fetch_after_failed_write queen_match_answers(1) match_after_failed_write
  have again: "\<exists>c'' asked. async_update_data containment_ratio calm after_failed_write
         = (c'', Inr \<lparr> current_song = Some (song_dict example_db bohemian),
                       song_changed = False, error = None, raw_metadata = None,
                       npo_metadata = Some queen_observation \<rparr>)
       \<and> last_song_id c'' = Some (sd_id (song_dict example_db bohemian))
       \<and> db_manager c'' = db_manager after_failed_write
       \<and> trace c'' = trace after_failed_write @ map Upstream asked
            @ [StoreCall (MatchSong (md_artist queen_observation) (md_title queen_observation))]"
    by blast
  from fetch_queen_write_fails queen_is_new tick_write_fails tracked again
  show ?thesis by blast
qed

end
